theory Spec2Isabelle
  imports Complex_Main "HOL-Library.Word"
begin

section \<open>Numbers, vectors and planes\<close>

text \<open>
  The importer computes in IEEE floating point (\<^verbatim>\<open>double\<close>, and \<^verbatim>\<open>float\<close> inside
  \<^verbatim>\<open>computePlaneCoefficients\<close>). The embedding computes over the real numbers: rounding is
  not modelled, and an operation whose IEEE result is not a finite number (a zero vector
  normalised, a singular matrix inverted) is the outcome \<open>NotFinite\<close>, where the model stops.

  \<^verbatim>\<open>ROS_ASSERT\<close> is modelled as compiled in (the build without \<^verbatim>\<open>NDEBUG\<close>): a failed
  assertion logs a fatal message and breaks the process, the outcome \<open>AssertFailed\<close>.
  \<^verbatim>\<open>std::vector::at\<close> and \<^verbatim>\<open>bimap::at\<close> throw \<^verbatim>\<open>std::out_of_range\<close>, the outcome \<open>Threw\<close>;
  nothing in \<^verbatim>\<open>mesh_importer.cpp\<close> catches it.
\<close>

datatype 'a outcome = Returned 'a | Threw | AssertFailed | NotFinite

type_synonym vec3 = "real \<times> real \<times> real"

fun dot :: "vec3 \<Rightarrow> vec3 \<Rightarrow> real" where
  "dot (a, b, c) (x, y, z) = a * x + b * y + c * z"

fun cross :: "vec3 \<Rightarrow> vec3 \<Rightarrow> vec3" where
  "cross (a, b, c) (x, y, z) = (b * z - c * y, c * x - a * z, a * y - b * x)"

fun vadd :: "vec3 \<Rightarrow> vec3 \<Rightarrow> vec3" where
  "vadd (a, b, c) (x, y, z) = (a + x, b + y, c + z)"

fun vsub :: "vec3 \<Rightarrow> vec3 \<Rightarrow> vec3" where
  "vsub (a, b, c) (x, y, z) = (a - x, b - y, c - z)"

fun smult :: "real \<Rightarrow> vec3 \<Rightarrow> vec3" where
  "smult s (x, y, z) = (s * x, s * y, s * z)"

fun vdiv :: "vec3 \<Rightarrow> real \<Rightarrow> vec3" where
  "vdiv (x, y, z) s = (x / s, y / s, z / s)"

definition squaredNorm :: "vec3 \<Rightarrow> real" where
  "squaredNorm v = dot v v"

definition vnorm :: "vec3 \<Rightarrow> real" where
  "vnorm v = sqrt (squaredNorm v)"

definition UnitX :: vec3 where "UnitX = (1, 0, 0)"
definition UnitY :: vec3 where "UnitY = (0, 1, 0)"

text \<open>
  \<^verbatim>\<open>v.normalized()\<close> is \<^verbatim>\<open>v / v.norm()\<close>. For the zero vector the quotient is 0/0;
  the model has no value there.
\<close>

definition normalized :: "vec3 \<Rightarrow> vec3 option" where
  "normalized v = (if vnorm v = 0 then None else Some (vdiv v (vnorm v)))"

text \<open>
  \<^verbatim>\<open>Eigen::Hyperplane<double, 3>\<close>: four coefficients, the normal (the first three) and
  the offset. \<^verbatim>\<open>signedDistance(p) = normal().dot(p) + offset()\<close> and
  \<^verbatim>\<open>projection(p) = p - signedDistance(p) * normal()\<close>, as the library defines them;
  neither normalises.
\<close>

record hyperplane =
  normal :: vec3
  offset :: real

definition signedDistance :: "hyperplane \<Rightarrow> vec3 \<Rightarrow> real" where
  "signedDistance h p = dot (normal h) p + offset h"

definition projection :: "hyperplane \<Rightarrow> vec3 \<Rightarrow> vec3" where
  "projection h p = vsub p (smult (signedDistance h p) (normal h))"

text \<open>
  \<^verbatim>\<open>Eigen::Affine3d\<close>: a 4x4 matrix whose last row is (0, 0, 0, 1). The record holds
  the three columns of the linear part and the translation.
\<close>

record affine3 =
  col0 :: vec3
  col1 :: vec3
  col2 :: vec3
  translation :: vec3

definition Identity :: affine3 where
  "Identity = \<lparr>col0 = (1, 0, 0), col1 = (0, 1, 0), col2 = (0, 0, 1), translation = (0, 0, 0)\<rparr>"

fun transform :: "affine3 \<Rightarrow> vec3 \<Rightarrow> vec3" where
  "transform A (x, y, z) =
     vadd (vadd (vadd (smult x (col0 A)) (smult y (col1 A))) (smult z (col2 A))) (translation A)"

definition determinant :: "affine3 \<Rightarrow> real" where
  "determinant A = dot (col0 A) (cross (col1 A) (col2 A))"

text \<open>
  \<^verbatim>\<open>Affine3d::inverse()\<close>: the linear part is inverted by cofactors over the determinant
  (the rows of the inverse are the cross products of the columns, divided by the
  determinant), and the translation becomes \<open>- linear\<^sup>-\<^sup>1 * translation\<close>. Nothing checks
  the determinant; with determinant 0 the quotients are not finite.
\<close>

definition inverse_affine :: "affine3 \<Rightarrow> affine3 option" where
  "inverse_affine A =
     (let d = determinant A in
      if d = 0 then None
      else
        (case (vdiv (cross (col1 A) (col2 A)) d,
               vdiv (cross (col2 A) (col0 A)) d,
               vdiv (cross (col0 A) (col1 A)) d) of
           ((a0, a1, a2), (b0, b1, b2), (c0, c1, c2)) \<Rightarrow>
             Some \<lparr>col0 = (a0, b0, c0), col1 = (a1, b1, c1), col2 = (a2, b2, c2),
                   translation =
                     smult (- 1) (dot (a0, a1, a2) (translation A),
                                  dot (b0, b1, b2) (translation A),
                                  dot (c0, c1, c2) (translation A))\<rparr>))"

section \<open>The importer's data\<close>

text \<open>
  A point of the cloud carries its position and its normal. \<^verbatim>\<open>pcl::fromPCLPointCloud2\<close>
  sizes the point vector to \<^verbatim>\<open>width * height\<close>, so \<^verbatim>\<open>cloud->height * cloud->width\<close> is
  the length of the list.
\<close>

record point =
  xyz :: vec3
  normal_xyz :: vec3

record PolygonMesh =
  cloud :: "point list"
  polygons :: "32 word list list"

record MeshImporter =
  plane_frame :: affine3
  boundaries :: "(real \<times> real) list list"
  verbose :: bool

text \<open>
  What \<^verbatim>\<open>seg.segment(*inliers, coefficients)\<close> hands back: the consensus fit is a library
  call with a random sampler, so its result is an input of the model.
\<close>

record segmentation =
  inliers :: "nat list"
  coefficients :: "real list"

datatype error =
    InsufficientFit
  | NormalMismatch
  | NonTriangularFace nat nat

section \<open>computePlaneCoefficients\<close>

definition EpsAngle :: real where
  "EpsAngle = 0.5"

definition computePlaneCoefficients ::
    "point list \<Rightarrow> segmentation \<Rightarrow> (error + hyperplane) outcome" where
  "computePlaneCoefficients points seg =
     (case points of
        [] \<Rightarrow> Threw
      | p0 # _ \<Rightarrow>
          (let expected_normal = normal_xyz p0;
               values = coefficients seg
           in if length values \<noteq> 4 then AssertFailed
              else if real (length (inliers seg)) / real (length points) < 0.9
                then Returned (Inl InsufficientFit)
              else
                (let actual_normal = (values ! 0, values ! 1, values ! 2);
                     actual_normal =
                       (if dot actual_normal expected_normal < 0.0
                        then smult (- 1) actual_normal else actual_normal)
                 in if dot actual_normal expected_normal < cos EpsAngle
                    then Returned (Inl NormalMismatch)
                    else Returned (Inr \<lparr>normal = actual_normal, offset = values ! 3\<rparr>))))"

section \<open>computeLocalPlaneFrame\<close>

text \<open>
  The function writes the three columns and the translation of \<^verbatim>\<open>plane_frame_\<close>. Each
  \<^verbatim>\<open>normalized()\<close> of the source is evaluated where the source evaluates it; the branch on
  \<^verbatim>\<open>std::abs(plane_normal.dot(UnitX)) < 0.8\<close> is the source's.
\<close>

definition computeLocalPlaneFrame ::
    "hyperplane \<Rightarrow> vec3 \<Rightarrow> MeshImporter \<Rightarrow> MeshImporter outcome" where
  "computeLocalPlaneFrame plane centroid this =
     (let origin = projection plane centroid;
          plane_normal = normal plane
      in if \<bar>dot plane_normal UnitX\<bar> < 0.8 then
           (let x_axis = projection plane (vadd origin UnitX) in
            case (normalized x_axis, normalized plane_normal) of
              (Some xn, Some zn) \<Rightarrow>
                (case normalized (cross zn xn) of
                   Some yn \<Rightarrow>
                     Returned (this\<lparr>plane_frame :=
                       \<lparr>col0 = xn, col1 = yn, col2 = zn, translation = origin\<rparr>\<rparr>)
                 | None \<Rightarrow> NotFinite)
            | _ \<Rightarrow> NotFinite)
         else
           (let y_axis = projection plane (vadd origin UnitY) in
            case (normalized y_axis, normalized plane_normal) of
              (Some yn, Some zn) \<Rightarrow>
                (case normalized (cross yn zn) of
                   Some xn \<Rightarrow>
                     Returned (this\<lparr>plane_frame :=
                       \<lparr>col0 = xn, col1 = yn, col2 = zn, translation = origin\<rparr>\<rparr>)
                 | None \<Rightarrow> NotFinite)
            | _ \<Rightarrow> NotFinite))"

text \<open>
  \<^verbatim>\<open>pcl::compute3DCentroid\<close>: the mean of the positions. It is called only after
  \<^verbatim>\<open>computePlaneCoefficients\<close> has read the first point, so on a non-empty cloud.
\<close>

definition compute3DCentroid :: "point list \<Rightarrow> vec3" where
  "compute3DCentroid points =
     vdiv (foldl vadd (0, 0, 0) (map xyz points)) (real (length points))"

section \<open>The triangle mesh and the index map\<close>

text \<open>
  \<^verbatim>\<open>pcl::geometry::TriangleMesh\<close> is a library: the model keeps what the importer gives it,
  the number of vertices added (\<^verbatim>\<open>addVertex\<close> returns the next index) and the faces added,
  in order. What the library derives from them (half edges, boundaries) is the parameter
  \<open>MeshLib\<close> below.
\<close>

record Mesh =
  sizeVertices :: nat
  addedFaces :: "(nat \<times> nat \<times> nat) list"

definition empty_Mesh :: Mesh where
  "empty_Mesh = \<lparr>sizeVertices = 0, addedFaces = []\<rparr>"

definition addVertex :: "Mesh \<Rightarrow> nat \<times> Mesh" where
  "addVertex mesh = (sizeVertices mesh, mesh\<lparr>sizeVertices := Suc (sizeVertices mesh)\<rparr>)"

definition addFace :: "nat \<Rightarrow> nat \<Rightarrow> nat \<Rightarrow> Mesh \<Rightarrow> Mesh" where
  "addFace v0 v1 v2 mesh = mesh\<lparr>addedFaces := addedFaces mesh @ [(v0, v1, v2)]\<rparr>"

text \<open>
  \<^verbatim>\<open>boost::bimap<uint32_t, Mesh::VertexIndex>\<close>: a set of pairs, unique on the left and
  on the right. \<^verbatim>\<open>insert\<close> does nothing when either side is already there;
  \<^verbatim>\<open>left.at\<close> and \<^verbatim>\<open>right.at\<close> throw on a missing key (\<open>None\<close> here).
\<close>

type_synonym MeshIndexMap = "(32 word \<times> nat) list"

definition left_count :: "MeshIndexMap \<Rightarrow> 32 word \<Rightarrow> nat" where
  "left_count m k = (if k \<in> fst ` set m then 1 else 0)"

definition bimap_insert :: "MeshIndexMap \<Rightarrow> 32 word \<times> nat \<Rightarrow> MeshIndexMap" where
  "bimap_insert m kv =
     (if fst kv \<in> fst ` set m \<or> snd kv \<in> snd ` set m then m else m @ [kv])"

definition left_at :: "MeshIndexMap \<Rightarrow> 32 word \<Rightarrow> nat option" where
  "left_at m k = map_of m k"

definition right_at :: "MeshIndexMap \<Rightarrow> nat \<Rightarrow> 32 word option" where
  "right_at m v = map_of (map (\<lambda>(k, v). (v, k)) m) v"

text \<open>The loop over the vertices of one face (lines 90 to 98).\<close>

fun vertices_loop ::
    "32 word list \<Rightarrow> Mesh \<Rightarrow> MeshIndexMap \<Rightarrow> nat list \<Rightarrow> (Mesh \<times> MeshIndexMap \<times> nat list) outcome"
where
  "vertices_loop [] mesh m vi = Returned (mesh, m, vi)"
| "vertices_loop (vidx # rest) mesh m vi =
     (case (if left_count m vidx = 0
            then (let (v, mesh') = addVertex mesh in (mesh', bimap_insert m (vidx, v)))
            else (mesh, m)) of
        (mesh', m') \<Rightarrow>
          (case left_at m' vidx of
             None \<Rightarrow> Threw
           | Some v \<Rightarrow> vertices_loop rest mesh' m' (vi @ [v])))"

text \<open>
  The loop over the faces (lines 81 to 100); \<open>ii\<close> is the loop counter. A face that has
  not three vertices returns false from the whole call.
\<close>

fun polygons_loop ::
    "nat \<Rightarrow> 32 word list list \<Rightarrow> Mesh \<Rightarrow> MeshIndexMap \<Rightarrow> (error + Mesh \<times> MeshIndexMap) outcome"
where
  "polygons_loop ii [] mesh m = Returned (Inr (mesh, m))"
| "polygons_loop ii (vertices # rest) mesh m =
     (if length vertices \<noteq> 3 then Returned (Inl (NonTriangularFace ii (length vertices)))
      else
        (case vertices_loop vertices mesh m [] of
           Returned (mesh', m', vi) \<Rightarrow>
             (if length vi < 3 then Threw
              else polygons_loop (Suc ii) rest (addFace (vi ! 0) (vi ! 1) (vi ! 2) mesh') m')
         | Threw \<Rightarrow> Threw
         | AssertFailed \<Rightarrow> AssertFailed
         | NotFinite \<Rightarrow> NotFinite))"

section \<open>Boundaries\<close>

text \<open>
  \<^verbatim>\<open>pcl_godel::geometry::getBoundBoundaryHalfEdges\<close> (declared in \<^verbatim>\<open>get_boundary.h\<close>) and
  \<^verbatim>\<open>Mesh::getOriginatingVertexIndex\<close> are not in this file: the model takes them as
  parameters. A boundary is a list of half-edge indices.
\<close>

record MeshLib =
  getBoundBoundaryHalfEdges :: "Mesh \<Rightarrow> nat list list"
  getOriginatingVertexIndex :: "Mesh \<Rightarrow> nat \<Rightarrow> nat"

text \<open>
  One boundary point (lines 115 to 117): the cloud point of the half edge's originating
  vertex, projected onto the plane, then taken into the plane frame. \<open>None\<close> is the
  exception of \<^verbatim>\<open>right.at\<close> or of \<^verbatim>\<open>points.at\<close>.
\<close>

definition plane_pt_of ::
    "MeshLib \<Rightarrow> Mesh \<Rightarrow> MeshIndexMap \<Rightarrow> point list \<Rightarrow> hyperplane \<Rightarrow> affine3 \<Rightarrow> nat \<Rightarrow> vec3 option"
where
  "plane_pt_of lib mesh m points hplane plane_inverse edge =
     (case right_at m (getOriginatingVertexIndex lib mesh edge) of
        None \<Rightarrow> None
      | Some idx \<Rightarrow>
          (if unat idx < length points then
             (let cloudpt = points ! unat idx;
                  projected_pt = projection hplane (xyz cloudpt)
              in Some (transform plane_inverse projected_pt))
           else None))"

text \<open>The loop over the half edges of one boundary (lines 112 to 120).\<close>

fun edge_loop ::
    "(nat \<Rightarrow> vec3 option) \<Rightarrow> nat list \<Rightarrow> (real \<times> real) list \<Rightarrow> (real \<times> real) list outcome"
where
  "edge_loop pt [] pbound = Returned pbound"
| "edge_loop pt (edge # rest) pbound =
     (case pt edge of
        None \<Rightarrow> Threw
      | Some (x, y, z) \<Rightarrow>
          (if \<bar>z\<bar> < 0.001 then edge_loop pt rest (pbound @ [(x, y)])
           else AssertFailed))"

text \<open>
  The loop over the boundaries (lines 108 to 123). Each finished boundary is pushed on
  \<^verbatim>\<open>boundaries_\<close> at once, so the object already holds the earlier ones when a later one
  throws or fails its assertion.
\<close>

fun boundary_loop ::
    "(nat \<Rightarrow> vec3 option) \<Rightarrow> nat list list \<Rightarrow> MeshImporter \<Rightarrow> unit outcome \<times> MeshImporter"
where
  "boundary_loop pt [] this = (Returned (), this)"
| "boundary_loop pt (boundary # rest) this =
     (case edge_loop pt boundary [] of
        Returned pbound \<Rightarrow>
          boundary_loop pt rest (this\<lparr>boundaries := boundaries this @ [pbound]\<rparr>)
      | Threw \<Rightarrow> (Threw, this)
      | AssertFailed \<Rightarrow> (AssertFailed, this)
      | NotFinite \<Rightarrow> (NotFinite, this))"

section \<open>calculateBoundaryData\<close>

text \<open>
  The result is how control leaves the call, and the importer object as it is then.
  \<open>Returned (Inr ())\<close> is \<^verbatim>\<open>return true\<close>; \<open>Returned (Inl e)\<close> is \<^verbatim>\<open>return false\<close>, with
  \<open>e\<close> naming the return statement that was taken.
\<close>

definition calculateBoundaryData ::
    "MeshLib \<Rightarrow> segmentation \<Rightarrow> PolygonMesh \<Rightarrow> MeshImporter
       \<Rightarrow> (error + unit) outcome \<times> MeshImporter"
where
  "calculateBoundaryData lib seg input_mesh this0 =
     (let this = this0\<lparr>plane_frame := Identity, boundaries := []\<rparr>;
          points = cloud input_mesh
      in case computePlaneCoefficients points seg of
           Threw \<Rightarrow> (Threw, this)
         | AssertFailed \<Rightarrow> (AssertFailed, this)
         | NotFinite \<Rightarrow> (NotFinite, this)
         | Returned (Inl e) \<Rightarrow> (Returned (Inl e), this)
         | Returned (Inr hplane) \<Rightarrow>
             (case computeLocalPlaneFrame hplane (compute3DCentroid points) this of
                Threw \<Rightarrow> (Threw, this)
              | AssertFailed \<Rightarrow> (AssertFailed, this)
              | NotFinite \<Rightarrow> (NotFinite, this)
              | Returned this \<Rightarrow>
                  (case polygons_loop 0 (polygons input_mesh) empty_Mesh [] of
                     Threw \<Rightarrow> (Threw, this)
                   | AssertFailed \<Rightarrow> (AssertFailed, this)
                   | NotFinite \<Rightarrow> (NotFinite, this)
                   | Returned (Inl e) \<Rightarrow> (Returned (Inl e), this)
                   | Returned (Inr (mesh, mesh_index_map)) \<Rightarrow>
                       (let boundary_he_indices = getBoundBoundaryHalfEdges lib mesh in
                        case inverse_affine (plane_frame this) of
                          None \<Rightarrow> (NotFinite, this)
                        | Some plane_inverse \<Rightarrow>
                            (case boundary_loop
                                    (plane_pt_of lib mesh mesh_index_map points hplane plane_inverse)
                                    boundary_he_indices this of
                               (Returned u, this) \<Rightarrow> (Returned (Inr ()), this)
                             | (Threw, this) \<Rightarrow> (Threw, this)
                             | (AssertFailed, this) \<Rightarrow> (AssertFailed, this)
                             | (NotFinite, this) \<Rightarrow> (NotFinite, this))))))"

section \<open>Notions used in the proofs\<close>

text \<open>
  \<open>first_seen ks xs\<close> appends to \<open>ks\<close> the elements of \<open>xs\<close> that are new, in the order of
  their first occurrence; \<open>pos ks k\<close> is the position of \<open>k\<close> in \<open>ks\<close>; \<open>idx_map ks\<close> pairs
  each element with its position. They describe the index map the face loop builds.
\<close>

definition first_seen :: "'a list \<Rightarrow> 'a list \<Rightarrow> 'a list" where
  "first_seen ks xs = fold (\<lambda>x ks. if x \<in> set ks then ks else ks @ [x]) xs ks"

definition pos :: "'a list \<Rightarrow> 'a \<Rightarrow> nat" where
  "pos ks k = length (takeWhile (\<lambda>x. x \<noteq> k) ks)"

definition idx_map :: "32 word list \<Rightarrow> MeshIndexMap" where
  "idx_map ks = zip ks [0..<length ks]"

section \<open>Example inputs\<close>

text \<open>
  Concrete inputs for the closed theorems below: a triangle in the plane \<open>z = 0\<close>, the
  same triangle raised to \<open>z = 4\<close>, fits for both, and a stand-in for the mesh library on
  a single triangle (its boundary is the three outer half edges 1, 5 and 3, which
  originate at the vertices 1, 0 and 2).
\<close>

definition flat_cloud :: "point list" where
  "flat_cloud = [\<lparr>xyz = (0, - 3, 0), normal_xyz = (0, 0, 1)\<rparr>,
                 \<lparr>xyz = (6, 0, 0), normal_xyz = (0, 0, 1)\<rparr>,
                 \<lparr>xyz = (0, 3, 0), normal_xyz = (0, 0, 1)\<rparr>]"

definition flat_fit :: segmentation where
  "flat_fit = \<lparr>inliers = [0, 1, 2], coefficients = [0, 0, 1, 0]\<rparr>"

definition raised_cloud :: "point list" where
  "raised_cloud = [\<lparr>xyz = (0, - 3, 4), normal_xyz = (0, 0, 1)\<rparr>,
                   \<lparr>xyz = (6, 0, 4), normal_xyz = (0, 0, 1)\<rparr>,
                   \<lparr>xyz = (0, 3, 4), normal_xyz = (0, 0, 1)\<rparr>]"

definition raised_fit :: segmentation where
  "raised_fit = \<lparr>inliers = [0, 1, 2], coefficients = [0, 0, 1, - 4]\<rparr>"

definition one_triangle_lib :: MeshLib where
  "one_triangle_lib =
     \<lparr>getBoundBoundaryHalfEdges = (\<lambda>mesh. if addedFaces mesh = [(0, 1, 2)] then [[1, 5, 3]] else []),
      getOriginatingVertexIndex = (\<lambda>mesh he. if even he then he div 2 else (he div 2 + 1) mod 3)\<rparr>"

definition new_importer :: MeshImporter where
  "new_importer = \<lparr>plane_frame = Identity, boundaries = [], verbose = False\<rparr>"

definition flat_plane :: hyperplane where
  "flat_plane = \<lparr>normal = (0, 0, 1), offset = 0\<rparr>"

definition raised_plane :: hyperplane where
  "raised_plane = \<lparr>normal = (0, 0, 1), offset = - 4\<rparr>"

definition flat_frame :: affine3 where
  "flat_frame = \<lparr>col0 = (1, 0, 0), col1 = (0, 1, 0), col2 = (0, 0, 1), translation = (2, 0, 0)\<rparr>"

definition raised_frame :: affine3 where
  "raised_frame =
     \<lparr>col0 = (3 / 5, 0, 4 / 5), col1 = (0, 1, 0), col2 = (0, 0, 1), translation = (2, 0, 4)\<rparr>"

definition flat_triangle :: PolygonMesh where
  "flat_triangle = \<lparr>cloud = flat_cloud, polygons = [[0, 1, 2]]\<rparr>"

definition raised_triangle :: PolygonMesh where
  "raised_triangle = \<lparr>cloud = raised_cloud, polygons = [[0, 1, 2]]\<rparr>"

definition flat_no_faces :: PolygonMesh where
  "flat_no_faces = \<lparr>cloud = flat_cloud, polygons = []\<rparr>"

definition no_points :: PolygonMesh where
  "no_points = \<lparr>cloud = [], polygons = [[0, 1, 2]]\<rparr>"

definition flat_with_quad :: PolygonMesh where
  "flat_with_quad = \<lparr>cloud = flat_cloud, polygons = [[0, 1, 2], [0, 2, 1, 0]]\<rparr>"

definition used_importer :: MeshImporter where
  "used_importer = \<lparr>plane_frame = Identity, boundaries = [[(0, 0), (1, 0), (0, 1)]], verbose = True\<rparr>"

definition two_inliers :: segmentation where
  "two_inliers = \<lparr>inliers = [0, 1], coefficients = [0, 0, 1, 0]\<rparr>"

definition flipped_fit :: segmentation where
  "flipped_fit = \<lparr>inliers = [0, 1, 2], coefficients = [0, 0, - 1, 0]\<rparr>"

definition sideways_fit :: segmentation where
  "sideways_fit = \<lparr>inliers = [0, 1, 2], coefficients = [1, 0, 0, 0]\<rparr>"

definition two_triangles :: "32 word list list" where
  "two_triangles = [[5, 7, 9], [9, 7, 11]]"

definition one_triangle_mesh :: Mesh where
  "one_triangle_mesh = \<lparr>sizeVertices = 3, addedFaces = [(0, 1, 2)]\<rparr>"

definition one_triangle_map :: MeshIndexMap where
  "one_triangle_map = [(0, 0), (1, 1), (2, 2)]"

definition raised_inverse :: affine3 where
  "raised_inverse = \<lparr>col0 = (5 / 3, 0, - 4 / 3), col1 = (0, 1, 0), col2 = (0, 0, 1),
     translation = (- 10 / 3, 0, - 4 / 3)\<rparr>"

definition flat_inverse :: affine3 where
  "flat_inverse = \<lparr>col0 = (1, 0, 0), col1 = (0, 1, 0), col2 = (0, 0, 1), translation = (- 2, 0, 0)\<rparr>"

definition one_point_cloud :: "point list" where
  "one_point_cloud = [\<lparr>xyz = (0, 0, 0), normal_xyz = (0, 0, 1)\<rparr>]"

definition no_model :: segmentation where
  "no_model = \<lparr>inliers = [], coefficients = []\<rparr>"

text \<open>
  A small triangle in the plane \<open>z = 4\<close> with a fit whose normal points down; a mesh whose
  second face names points the cloud does not have, with a stand-in for the mesh library
  on two separate triangles; and a face of four indices with no points at all.
\<close>

definition tiny_cloud :: "point list" where
  "tiny_cloud = [\<lparr>xyz = (19997 / 10000, - 3 / 10000, 4), normal_xyz = (0, 0, 1)\<rparr>,
                 \<lparr>xyz = (10003 / 5000, 0, 4), normal_xyz = (0, 0, 1)\<rparr>,
                 \<lparr>xyz = (19997 / 10000, 3 / 10000, 4), normal_xyz = (0, 0, 1)\<rparr>]"

definition down_fit :: segmentation where
  "down_fit = \<lparr>inliers = [0, 1, 2], coefficients = [0, 0, - 1, 4]\<rparr>"

definition down_plane :: hyperplane where
  "down_plane = \<lparr>normal = (0, 0, - 1), offset = 4\<rparr>"

definition mirrored_plane :: hyperplane where
  "mirrored_plane = \<lparr>normal = (0, 0, 1), offset = 4\<rparr>"

definition mirrored_frame :: affine3 where
  "mirrored_frame =
     \<lparr>col0 = (3 / 5, 0, - 4 / 5), col1 = (0, 1, 0), col2 = (0, 0, 1), translation = (2, 0, - 4)\<rparr>"

definition mirrored_inverse :: affine3 where
  "mirrored_inverse = \<lparr>col0 = (5 / 3, 0, 4 / 3), col1 = (0, 1, 0), col2 = (0, 0, 1),
     translation = (- 10 / 3, 0, 4 / 3)\<rparr>"

definition tiny_triangle :: PolygonMesh where
  "tiny_triangle = \<lparr>cloud = tiny_cloud, polygons = [[0, 1, 2]]\<rparr>"

definition two_triangle_lib :: MeshLib where
  "two_triangle_lib =
     \<lparr>getBoundBoundaryHalfEdges =
        (\<lambda>mesh. if addedFaces mesh = [(0, 1, 2), (3, 4, 5)] then [[1, 5, 3], [7, 11, 9]] else []),
      getOriginatingVertexIndex =
        (\<lambda>mesh he. if even he then he div 2
                    else 3 * (he div 2 div 3) + (he div 2 mod 3 + 1) mod 3)\<rparr>"

definition dangling_faces :: PolygonMesh where
  "dangling_faces = \<lparr>cloud = flat_cloud, polygons = [[0, 1, 2], [3, 4, 5]]\<rparr>"

definition two_triangle_mesh :: Mesh where
  "two_triangle_mesh = \<lparr>sizeVertices = 6, addedFaces = [(0, 1, 2), (3, 4, 5)]\<rparr>"

definition two_triangle_map :: MeshIndexMap where
  "two_triangle_map = [(0, 0), (1, 1), (2, 2), (3, 3), (4, 4), (5, 5)]"

definition quad_no_points :: PolygonMesh where
  "quad_no_points = \<lparr>cloud = [], polygons = [[0, 2, 1, 0]]\<rparr>"

section \<open>Lemmas\<close>

lemma first_seen_Nil [simp]: "first_seen ks [] = ks"
  by (simp add: first_seen_def)

lemma first_seen_Cons [simp]:
  "first_seen ks (x # xs) = first_seen (if x \<in> set ks then ks else ks @ [x]) xs"
  by (simp add: first_seen_def)

lemma first_seen_append: "first_seen ks (xs @ ys) = first_seen (first_seen ks xs) ys"
  by (simp add: first_seen_def)

lemma first_seen_distinct: "distinct ks \<Longrightarrow> distinct (first_seen ks xs)"
  by (induction xs arbitrary: ks) auto

lemma first_seen_set: "set (first_seen ks xs) = set ks \<union> set xs"
  by (induction xs arbitrary: ks) auto

lemma first_seen_prefix: "\<exists>ys. first_seen ks xs = ks @ ys"
proof (induction xs arbitrary: ks)
  case Nil
  then show ?case by simp
next
  case (Cons x xs)
  obtain ys where "first_seen (if x \<in> set ks then ks else ks @ [x]) xs
      = (if x \<in> set ks then ks else ks @ [x]) @ ys"
    using Cons.IH by blast
  then show ?case by (cases "x \<in> set ks") auto
qed

lemma pos_append: "k \<in> set ks \<Longrightarrow> pos (ks @ ys) k = pos ks k"
  by (simp add: pos_def takeWhile_append1)

lemma pos_first_seen: "k \<in> set ks \<Longrightarrow> pos (first_seen ks xs) k = pos ks k"
  using first_seen_prefix [of ks xs] by (auto simp: pos_append)

lemma pos_less: "k \<in> set ks \<Longrightarrow> pos ks k < length ks"
  unfolding pos_def by (induction ks) auto

lemma nth_pos: "k \<in> set ks \<Longrightarrow> ks ! pos ks k = k"
  unfolding pos_def by (induction ks) auto

lemma pos_notin: "k \<notin> set ks \<Longrightarrow> pos (ks @ [k]) k = length ks"
  unfolding pos_def by (induction ks) auto

lemma pos_first_seen_card:
  "distinct ks \<Longrightarrow> k \<in> set (first_seen ks xs) \<Longrightarrow>
   pos (first_seen ks xs) k =
     (if k \<in> set ks then pos ks k
      else length ks + card (set (takeWhile (\<lambda>x. x \<noteq> k) xs) - set ks))"
proof (induction xs arbitrary: ks)
  case Nil
  then show ?case by simp
next
  case (Cons x xs)
  let ?ks' = "if x \<in> set ks then ks else ks @ [x]"
  have d: "distinct ?ks'" using Cons.prems(1) by simp
  have m: "k \<in> set (first_seen ?ks' xs)" using Cons.prems(2) by simp
  note IH = Cons.IH [OF d m]
  show ?case
  proof (cases "k \<in> set ks")
    case True
    then show ?thesis using IH by (auto simp: pos_append)
  next
    case notin: False
    show ?thesis
    proof (cases "x = k")
      case True
      then show ?thesis using IH notin by (simp add: pos_notin)
    next
      case xk: False
      show ?thesis
      proof (cases "x \<in> set ks")
        case True
        then have "insert x (set (takeWhile (\<lambda>x. x \<noteq> k) xs)) - set ks
            = set (takeWhile (\<lambda>x. x \<noteq> k) xs) - set ks" by auto
        then show ?thesis using IH notin xk True by simp
      next
        case False
        let ?S = "set (takeWhile (\<lambda>x. x \<noteq> k) xs)"
        have "insert x ?S - set ks = insert x (?S - insert x (set ks))"
          using False by auto
        moreover have "x \<notin> ?S - insert x (set ks)" by simp
        ultimately have "card (insert x ?S - set ks) = Suc (card (?S - insert x (set ks)))"
          by (simp del: Diff_insert_absorb Diff_insert0)
        then show ?thesis using IH notin xk False by simp
      qed
    qed
  qed
qed

lemma map_of_zip_upt:
  "map_of (zip ks [n..<n + length ks]) k =
     (if k \<in> set ks then Some (n + pos ks k) else None)"
proof (induction ks arbitrary: n)
  case Nil
  then show ?case by simp
next
  case (Cons a ks)
  have "[n..<n + length (a # ks)] = n # [Suc n..<Suc n + length ks]"
    by (subst upt_rec) simp
  then show ?case using Cons.IH [of "Suc n"] by (auto simp: pos_def)
qed

lemma left_at_idx_map:
  "left_at (idx_map ks) k = (if k \<in> set ks then Some (pos ks k) else None)"
  using map_of_zip_upt [of ks 0 k] by (simp add: left_at_def idx_map_def)

lemma fst_idx_map [simp]: "map fst (idx_map ks) = ks"
  by (simp add: idx_map_def)

lemma snd_idx_map [simp]: "map snd (idx_map ks) = [0..<length ks]"
  by (simp add: idx_map_def)

lemma idx_map_snoc: "idx_map (ks @ [k]) = idx_map ks @ [(k, length ks)]"
  by (simp add: idx_map_def)

lemma left_count_idx_map: "left_count (idx_map ks) k = (if k \<in> set ks then 1 else 0)"
proof -
  have "fst ` set (idx_map ks) = set ks"
    using fst_idx_map [of ks] by (metis set_map)
  then show ?thesis by (simp add: left_count_def)
qed

lemma bimap_insert_idx_map:
  "k \<notin> set ks \<Longrightarrow> bimap_insert (idx_map ks) (k, length ks) = idx_map (ks @ [k])"
proof -
  assume k: "k \<notin> set ks"
  have f: "fst ` set (idx_map ks) = set ks"
    using fst_idx_map [of ks] by (metis set_map)
  have s: "snd ` set (idx_map ks) = set [0..<length ks]"
    using snd_idx_map [of ks] by (metis set_map)
  show ?thesis using k by (simp add: bimap_insert_def f s idx_map_snoc)
qed

lemma vertices_loop_idx_map:
  "sizeVertices mesh = length ks \<Longrightarrow>
   vertices_loop xs mesh (idx_map ks) vi =
     Returned (mesh\<lparr>sizeVertices := length (first_seen ks xs)\<rparr>,
               idx_map (first_seen ks xs),
               vi @ map (pos (first_seen ks xs)) xs)"
proof (induction xs arbitrary: mesh ks vi)
  case Nil
  then show ?case by simp
next
  case (Cons x xs)
  show ?case
  proof (cases "x \<in> set ks")
    case True
    have "pos (first_seen ks xs) x = pos ks x"
      using True by (rule pos_first_seen)
    then show ?thesis
      using True Cons.IH [OF Cons.prems, of "vi @ [pos ks x]"]
      by (simp add: left_count_idx_map left_at_idx_map)
  next
    case False
    let ?mesh = "mesh\<lparr>sizeVertices := Suc (sizeVertices mesh)\<rparr>"
    have sz: "sizeVertices ?mesh = length (ks @ [x])" using Cons.prems by simp
    have p: "pos (first_seen (ks @ [x]) xs) x = length ks"
      using pos_first_seen [of x "ks @ [x]" xs] False by (simp add: pos_notin)
    show ?thesis
      using False Cons.IH [OF sz, of "vi @ [length ks]"] Cons.prems p
      by (simp add: left_count_idx_map left_at_idx_map addVertex_def
          bimap_insert_idx_map pos_notin)
  qed
qed

lemma polygons_loop_idx_map:
  "\<forall>f\<in>set faces. length f = 3 \<Longrightarrow> sizeVertices mesh = length ks \<Longrightarrow>
   polygons_loop ii faces mesh (idx_map ks) =
     Returned (Inr
       (mesh\<lparr>sizeVertices := length (first_seen ks (concat faces)),
              addedFaces := addedFaces mesh @
                map (\<lambda>f. (pos (first_seen ks (concat faces)) (f ! 0),
                          pos (first_seen ks (concat faces)) (f ! 1),
                          pos (first_seen ks (concat faces)) (f ! 2))) faces\<rparr>,
        idx_map (first_seen ks (concat faces))))"
proof (induction faces arbitrary: ii mesh ks)
  case Nil
  then show ?case by simp
next
  case (Cons f faces)
  let ?ks1 = "first_seen ks f"
  let ?ks2 = "first_seen ks (concat (f # faces))"
  let ?mesh1 = "mesh\<lparr>sizeVertices := length ?ks1\<rparr>"
  have len: "length f = 3" using Cons.prems(1) by simp
  have ks2: "?ks2 = first_seen ?ks1 (concat faces)"
    by (simp add: first_seen_append)
  have inner: "vertices_loop f mesh (idx_map ks) [] =
      Returned (?mesh1, idx_map ?ks1, map (pos ?ks1) f)"
    using vertices_loop_idx_map [OF Cons.prems(2), of f "[]"] by simp
  have stable: "pos ?ks2 (f ! i) = pos ?ks1 (f ! i)" if "i < 3" for i
  proof -
    have "f ! i \<in> set ?ks1" using that len by (simp add: first_seen_set)
    then show ?thesis unfolding ks2 by (rule pos_first_seen)
  qed
  have rest: "\<forall>f\<in>set faces. length f = 3" using Cons.prems(1) by simp
  have sz: "sizeVertices (addFace a b c ?mesh1) = length ?ks1" for a b c
    by (simp add: addFace_def)
  show ?case
    using len inner Cons.IH [OF rest sz] stable [of 0] stable [of 1] stable [of 2]
    by (simp add: ks2 [symmetric] addFace_def)
qed

lemma polygons_loop_bad_face:
  "\<forall>f\<in>set pre. length f = 3 \<Longrightarrow> length bad \<noteq> 3 \<Longrightarrow> sizeVertices mesh = length ks \<Longrightarrow>
   polygons_loop ii (pre @ bad # rest) mesh (idx_map ks) =
     Returned (Inl (NonTriangularFace (ii + length pre) (length bad)))"
proof (induction pre arbitrary: ii mesh ks)
  case Nil
  then show ?case by simp
next
  case (Cons f pre)
  let ?ks1 = "first_seen ks f"
  let ?mesh1 = "mesh\<lparr>sizeVertices := length ?ks1\<rparr>"
  have len: "length f = 3" using Cons.prems(1) by simp
  have inner: "vertices_loop f mesh (idx_map ks) [] =
      Returned (?mesh1, idx_map ?ks1, map (pos ?ks1) f)"
    using vertices_loop_idx_map [OF Cons.prems(3), of f "[]"] by simp
  have pre: "\<forall>f\<in>set pre. length f = 3" using Cons.prems(1) by simp
  have sz: "sizeVertices (addFace a b c ?mesh1) = length ?ks1" for a b c
    by (simp add: addFace_def)
  show ?case
    using len inner Cons.IH [OF pre Cons.prems(2) sz]
    by simp
qed

lemma idx_map_Nil [simp]: "idx_map [] = []"
  by (simp add: idx_map_def)

lemma right_at_left_at:
  assumes "distinct (map fst m)" and "distinct (map snd m)"
  shows "right_at m v = Some k \<longleftrightarrow> left_at m k = Some v"
proof -
  have sw: "map fst (map (\<lambda>(k, v). (v, k)) m) = map snd m"
    by (induction m) auto
  have dsw: "distinct (map fst (map (\<lambda>(k, v). (v, k)) m))"
    using assms(2) by (simp only: sw)
  have "right_at m v = Some k \<longleftrightarrow> (v, k) \<in> set (map (\<lambda>(k, v). (v, k)) m)"
    unfolding right_at_def by (rule map_of_eq_Some_iff [OF dsw])
  also have "\<dots> \<longleftrightarrow> (k, v) \<in> set m" by auto
  also have "\<dots> \<longleftrightarrow> left_at m k = Some v"
    unfolding left_at_def using assms(1) by (simp add: map_of_eq_Some_iff)
  finally show ?thesis .
qed

lemma squaredNorm_nonneg: "0 \<le> squaredNorm v"
  by (cases v) (simp add: squaredNorm_def)

lemma squaredNorm_vdiv: "squaredNorm (vdiv v s) = squaredNorm v / (s * s)"
  by (cases v) (simp add: squaredNorm_def add_divide_distrib)

lemma vnorm_smult: "vnorm (smult s v) = \<bar>s\<bar> * vnorm v"
proof -
  have "squaredNorm (smult s v) = s\<^sup>2 * squaredNorm v"
    by (cases v) (simp add: squaredNorm_def power2_eq_square algebra_simps)
  then show ?thesis by (simp add: vnorm_def real_sqrt_mult)
qed

lemma normalized_unit: "normalized v = Some u \<Longrightarrow> vnorm u = 1"
proof -
  assume n: "normalized v = Some u"
  have nz: "vnorm v \<noteq> 0" and u: "u = vdiv v (vnorm v)"
    using n by (auto simp: normalized_def split: if_splits)
  have sq: "vnorm v * vnorm v = squaredNorm v"
    by (simp add: vnorm_def squaredNorm_nonneg)
  have "squaredNorm v \<noteq> 0" using nz by (auto simp: vnorm_def)
  then have "squaredNorm u = 1"
    by (simp add: u squaredNorm_vdiv sq)
  then show ?thesis by (simp add: vnorm_def)
qed

lemma normalized_eq_unit: "vnorm v = 1 \<Longrightarrow> normalized v = Some v"
  by (cases v) (simp add: normalized_def)

lemma transform_drop_z:
  "transform A (x, y, 0) = vsub (transform A (x, y, z)) (smult z (col2 A))"
  by (cases "col0 A"; cases "col1 A"; cases "col2 A"; cases "translation A") simp

lemma inverse_affine_right:
  assumes inv: "inverse_affine A = Some B"
  shows "transform A (transform B p) = p"
proof -
  obtain a0 a1 a2 where a: "col0 A = (a0, a1, a2)" by (cases "col0 A") auto
  obtain b0 b1 b2 where b: "col1 A = (b0, b1, b2)" by (cases "col1 A") auto
  obtain c0 c1 c2 where c: "col2 A = (c0, c1, c2)" by (cases "col2 A") auto
  obtain t0 t1 t2 where t: "translation A = (t0, t1, t2)" by (cases "translation A") auto
  obtain p0 p1 p2 where p: "p = (p0, p1, p2)" by (cases p) auto
  define d where "d = determinant A"
  have d: "d = a0 * (b1 * c2 - b2 * c1) + a1 * (b2 * c0 - b0 * c2) + a2 * (b0 * c1 - b1 * c0)"
    by (simp add: d_def determinant_def a b c)
  have nz: "d \<noteq> 0" using inv by (auto simp: inverse_affine_def d_def Let_def split: if_splits)
  define X where "X = (b1 * c2 - b2 * c1) * (p0 - t0) + (b2 * c0 - b0 * c2) * (p1 - t1)
    + (b0 * c1 - b1 * c0) * (p2 - t2)"
  define Y where "Y = (c1 * a2 - c2 * a1) * (p0 - t0) + (c2 * a0 - c0 * a2) * (p1 - t1)
    + (c0 * a1 - c1 * a0) * (p2 - t2)"
  define Z where "Z = (a1 * b2 - a2 * b1) * (p0 - t0) + (a2 * b0 - a0 * b2) * (p1 - t1)
    + (a0 * b1 - a1 * b0) * (p2 - t2)"
  have B: "transform B p = (X / d, Y / d, Z / d)"
    using inv nz
    by (auto simp add: inverse_affine_def d_def [symmetric] Let_def a b c t p X_def Y_def Z_def
        divide_inverse algebra_simps)
  have e0: "X * a0 + Y * b0 + Z * c0 = d * (p0 - t0)"
    unfolding X_def Y_def Z_def d by (simp add: algebra_simps)
  have e1: "X * a1 + Y * b1 + Z * c1 = d * (p1 - t1)"
    unfolding X_def Y_def Z_def d by (simp add: algebra_simps)
  have e2: "X * a2 + Y * b2 + Z * c2 = d * (p2 - t2)"
    unfolding X_def Y_def Z_def d by (simp add: algebra_simps)
  have f0: "X / d * a0 + Y / d * b0 + Z / d * c0 = p0 - t0"
  proof -
    have "X / d * a0 + Y / d * b0 + Z / d * c0 = (X * a0 + Y * b0 + Z * c0) / d"
      by (simp add: add_divide_distrib)
    then show ?thesis using nz by (simp add: e0)
  qed
  have f1: "X / d * a1 + Y / d * b1 + Z / d * c1 = p1 - t1"
  proof -
    have "X / d * a1 + Y / d * b1 + Z / d * c1 = (X * a1 + Y * b1 + Z * c1) / d"
      by (simp add: add_divide_distrib)
    then show ?thesis using nz by (simp add: e1)
  qed
  have f2: "X / d * a2 + Y / d * b2 + Z / d * c2 = p2 - t2"
  proof -
    have "X / d * a2 + Y / d * b2 + Z / d * c2 = (X * a2 + Y * b2 + Z * c2) / d"
      by (simp add: add_divide_distrib)
    then show ?thesis using nz by (simp add: e2)
  qed
  show ?thesis
    unfolding B using f0 f1 f2 by (simp add: a b c t p)
qed

lemma inverse_affine_drop_z:
  assumes inv: "inverse_affine A = Some B" and loc: "transform B p = (x, y, z)"
  shows "transform A (x, y, 0) = vsub p (smult z (col2 A))"
  using inverse_affine_right [OF inv, of p] transform_drop_z [of A x y z] loc by simp

lemma vnorm_vsub_smult: "vnorm (vsub (vsub p (smult z c)) p) = \<bar>z\<bar> * vnorm c"
proof -
  have "vsub (vsub p (smult z c)) p = smult (- z) c"
    by (cases p; cases c) simp
  then show ?thesis by (simp add: vnorm_smult)
qed

lemma vnorm_eqI: "0 \<le> r \<Longrightarrow> r * r = squaredNorm v \<Longrightarrow> vnorm v = r"
  unfolding vnorm_def by (metis real_sqrt_abs2 abs_of_nonneg)

lemma normalizedI:
  "0 < r \<Longrightarrow> r * r = squaredNorm v \<Longrightarrow> normalized v = Some (vdiv v r)"
  using vnorm_eqI [of r v] by (simp add: normalized_def)

lemma centroid_flat: "compute3DCentroid flat_cloud = (2, 0, 0)"
  by (simp add: compute3DCentroid_def flat_cloud_def)

lemma centroid_raised: "compute3DCentroid raised_cloud = (2, 0, 4)"
  by (simp add: compute3DCentroid_def raised_cloud_def)

lemma cos_EpsAngle_bounds: "0 < cos EpsAngle \<and> cos EpsAngle \<le> 1"
proof -
  have "(1/2::real) < pi / 2" using pi_ge_two by simp
  then have "0 < cos (1/2::real)" by (intro cos_gt_zero) simp_all
  then show ?thesis by (simp add: EpsAngle_def)
qed

lemma fit_flat: "computePlaneCoefficients flat_cloud flat_fit = Returned (Inr \<lparr>normal = (0, 0, 1), offset = 0\<rparr>)"
  using cos_EpsAngle_bounds
  by (simp add: computePlaneCoefficients_def flat_cloud_def flat_fit_def not_less)

lemma fit_raised: "computePlaneCoefficients raised_cloud raised_fit = Returned (Inr \<lparr>normal = (0, 0, 1), offset = - 4\<rparr>)"
  using cos_EpsAngle_bounds
  by (simp add: computePlaneCoefficients_def raised_cloud_def raised_fit_def not_less)

lemma frame_flat:
  "computeLocalPlaneFrame \<lparr>normal = (0, 0, 1), offset = 0\<rparr> (2, 0, 0) this =
     Returned (this\<lparr>plane_frame := \<lparr>col0 = (1, 0, 0), col1 = (0, 1, 0), col2 = (0, 0, 1), translation = (2, 0, 0)\<rparr>\<rparr>)"
proof -
  have x: "normalized (3, 0, 0) = Some (1, 0, 0)"
    using normalizedI [of 3 "(3, 0, 0)"] by (simp add: squaredNorm_def)
  have z: "normalized (0, 0, 1) = Some (0, 0, 1)"
    using normalizedI [of 1 "(0, 0, 1)"] by (simp add: squaredNorm_def)
  have y: "normalized (0, 1, 0) = Some (0, 1, 0)"
    using normalizedI [of 1 "(0, 1, 0)"] by (simp add: squaredNorm_def)
  show ?thesis
    by (simp add: computeLocalPlaneFrame_def projection_def signedDistance_def UnitX_def x y z)
qed

lemma frame_raised:
  "computeLocalPlaneFrame \<lparr>normal = (0, 0, 1), offset = - 4\<rparr> (2, 0, 4) this =
     Returned (this\<lparr>plane_frame := \<lparr>col0 = (3 / 5, 0, 4 / 5), col1 = (0, 1, 0), col2 = (0, 0, 1), translation = (2, 0, 4)\<rparr>\<rparr>)"
proof -
  have x: "normalized (3, 0, 4) = Some (3 / 5, 0, 4 / 5)"
    using normalizedI [of 5 "(3, 0, 4)"] by (simp add: squaredNorm_def)
  have z: "normalized (0, 0, 1) = Some (0, 0, 1)"
    using normalizedI [of 1 "(0, 0, 1)"] by (simp add: squaredNorm_def)
  have y: "normalized (0, 3 / 5, 0) = Some (0, 1, 0)"
    using normalizedI [of "3 / 5" "(0, 3 / 5, 0)"] by (simp add: squaredNorm_def)
  show ?thesis
    by (simp add: computeLocalPlaneFrame_def projection_def signedDistance_def UnitX_def x y z)
qed

lemma mesh_one_triangle:
  "polygons_loop 0 [[0, 1, 2]] empty_Mesh [] =
     Returned (Inr (\<lparr>sizeVertices = 3, addedFaces = [(0, 1, 2)]\<rparr>, [(0, 0), (1, 1), (2, 2)]))"
  by (simp add: empty_Mesh_def left_count_def left_at_def addVertex_def bimap_insert_def addFace_def)

lemma flat_points:
  "length flat_cloud = 3" "xyz (flat_cloud ! 0) = (0, - 3, 0)"
  "xyz (flat_cloud ! Suc 0) = (6, 0, 0)" "xyz (flat_cloud ! 2) = (0, 3, 0)"
  by (simp_all add: flat_cloud_def)

lemma raised_points:
  "length raised_cloud = 3" "xyz (raised_cloud ! 0) = (0, - 3, 4)"
  "xyz (raised_cloud ! Suc 0) = (6, 0, 4)" "xyz (raised_cloud ! 2) = (0, 3, 4)"
  by (simp_all add: raised_cloud_def)

lemma calculateBoundaryData_stages:
  assumes "computePlaneCoefficients (cloud input) seg = Returned (Inr hplane)"
    and "computeLocalPlaneFrame hplane (compute3DCentroid (cloud input))
           (this0\<lparr>plane_frame := Identity, boundaries := []\<rparr>) = Returned this1"
    and "polygons_loop 0 (polygons input) empty_Mesh [] = Returned (Inr (mesh, m))"
    and "inverse_affine (plane_frame this1) = Some pinv"
  shows "calculateBoundaryData lib seg input this0 =
     (case boundary_loop (plane_pt_of lib mesh m (cloud input) hplane pinv)
             (getBoundBoundaryHalfEdges lib mesh) this1 of
        (Returned u, this) \<Rightarrow> (Returned (Inr ()), this)
      | (Threw, this) \<Rightarrow> (Threw, this)
      | (AssertFailed, this) \<Rightarrow> (AssertFailed, this)
      | (NotFinite, this) \<Rightarrow> (NotFinite, this))"
  using assms by (simp add: calculateBoundaryData_def Let_def)

lemma calculateBoundaryData_bad_face:
  assumes "computePlaneCoefficients (cloud input) seg = Returned (Inr hplane)"
    and "computeLocalPlaneFrame hplane (compute3DCentroid (cloud input))
           (this0\<lparr>plane_frame := Identity, boundaries := []\<rparr>) = Returned this1"
    and "polygons_loop 0 (polygons input) empty_Mesh [] = Returned (Inl e)"
  shows "calculateBoundaryData lib seg input this0 = (Returned (Inl e), this1)"
  using assms by (simp add: calculateBoundaryData_def Let_def)

lemma calculateBoundaryData_ReturnedE:
  assumes "calculateBoundaryData lib seg input this0 = (Returned r, this')"
  obtains
    (fit) e where "computePlaneCoefficients (cloud input) seg = Returned (Inl e)"
      and "r = Inl e" and "this' = this0\<lparr>plane_frame := Identity, boundaries := []\<rparr>"
  | (face) hplane e where "computePlaneCoefficients (cloud input) seg = Returned (Inr hplane)"
      and "computeLocalPlaneFrame hplane (compute3DCentroid (cloud input))
             (this0\<lparr>plane_frame := Identity, boundaries := []\<rparr>) = Returned this'"
      and "polygons_loop 0 (polygons input) empty_Mesh [] = Returned (Inl e)"
      and "r = Inl e"
  | (ok) hplane this1 mesh m pinv u where
      "computePlaneCoefficients (cloud input) seg = Returned (Inr hplane)"
      and "computeLocalPlaneFrame hplane (compute3DCentroid (cloud input))
             (this0\<lparr>plane_frame := Identity, boundaries := []\<rparr>) = Returned this1"
      and "polygons_loop 0 (polygons input) empty_Mesh [] = Returned (Inr (mesh, m))"
      and "inverse_affine (plane_frame this1) = Some pinv"
      and "boundary_loop (plane_pt_of lib mesh m (cloud input) hplane pinv)
             (getBoundBoundaryHalfEdges lib mesh) this1 = (Returned u, this')"
      and "r = Inr ()"
proof (cases "computePlaneCoefficients (cloud input) seg")
  case (Returned fr)
  show ?thesis
  proof (cases fr)
    case (Inl e)
    then show ?thesis
      using assms Returned fit by (simp add: calculateBoundaryData_def Let_def)
  next
    case (Inr hplane)
    note fitted = Returned [unfolded Inr]
    show ?thesis
    proof (cases "computeLocalPlaneFrame hplane (compute3DCentroid (cloud input))
             (this0\<lparr>plane_frame := Identity, boundaries := []\<rparr>)")
      case framed: (Returned this1)
      show ?thesis
      proof (cases "polygons_loop 0 (polygons input) empty_Mesh []")
        case built: (Returned br)
        show ?thesis
        proof (cases br)
          case (Inl e)
          then show ?thesis
            using assms fitted framed built face [of hplane e]
            by (simp add: calculateBoundaryData_def Let_def)
        next
          case (Inr mm)
          obtain mesh m where mm: "mm = (mesh, m)" by (cases mm) auto
          note built' = built [unfolded Inr mm]
          show ?thesis
          proof (cases "inverse_affine (plane_frame this1)")
            case None
            then show ?thesis
              using assms fitted framed built'
              by (simp add: calculateBoundaryData_def Let_def)
          next
            case (Some pinv)
            obtain o1 t1 where bl: "boundary_loop (plane_pt_of lib mesh m (cloud input) hplane pinv)
                (getBoundBoundaryHalfEdges lib mesh) this1 = (o1, t1)" by fastforce
            have "calculateBoundaryData lib seg input this0 =
                (case (o1, t1) of
                  (Returned u, this) \<Rightarrow> (Returned (Inr ()), this)
                | (Threw, this) \<Rightarrow> (Threw, this)
                | (AssertFailed, this) \<Rightarrow> (AssertFailed, this)
                | (NotFinite, this) \<Rightarrow> (NotFinite, this))"
              using calculateBoundaryData_stages [OF fitted framed built' Some] bl by simp
            then show ?thesis
              using assms ok [OF fitted framed built' Some] bl
              by (cases o1) auto
          qed
        qed
      qed (use assms fitted framed in \<open>simp_all add: calculateBoundaryData_def Let_def\<close>)
    qed (use assms fitted in \<open>simp_all add: calculateBoundaryData_def Let_def\<close>)
  qed
qed (use assms in \<open>simp_all add: calculateBoundaryData_def Let_def\<close>)

lemma computeLocalPlaneFrame_fields:
  assumes "computeLocalPlaneFrame hp c this = Returned this1"
  shows "boundaries this1 = boundaries this" and "verbose this1 = verbose this"
    and "translation (plane_frame this1) = projection hp c"
    and "normalized (normal hp) = Some (col2 (plane_frame this1))"
  using assms
  by (auto simp add: computeLocalPlaneFrame_def Let_def split: if_splits option.splits)

lemma dot_vdiv_left: "dot (vdiv v s) w = dot v w / s"
  by (cases v; cases w) (simp add: add_divide_distrib)

lemma dot_cross_cyclic: "dot a (cross b c) = dot b (cross c a)"
  by (cases a; cases b; cases c) (simp add: algebra_simps)

lemma normalized_dot_self:
  assumes "normalized w = Some u"
  shows "dot u w \<noteq> 0"
proof -
  have nz: "vnorm w \<noteq> 0" and u: "u = vdiv w (vnorm w)"
    using assms by (auto simp: normalized_def split: if_splits)
  have "squaredNorm w \<noteq> 0" using nz by (auto simp: vnorm_def)
  then show ?thesis using nz by (simp add: u dot_vdiv_left squaredNorm_def)
qed

lemma frame_invertible:
  assumes "computeLocalPlaneFrame hp c this = Returned this1"
  shows "\<exists>pinv. inverse_affine (plane_frame this1) = Some pinv"
proof -
  have "determinant (plane_frame this1) \<noteq> 0"
  proof (cases "\<bar>dot (normal hp) UnitX\<bar> < 0.8")
    case True
    then obtain xn yn zn where y: "normalized (cross zn xn) = Some yn"
      and f: "plane_frame this1 = \<lparr>col0 = xn, col1 = yn, col2 = zn, translation = projection hp c\<rparr>"
      using assms
      by (auto simp add: computeLocalPlaneFrame_def Let_def split: if_splits option.splits)
    have "determinant (plane_frame this1) = dot yn (cross zn xn)"
      by (simp add: f determinant_def dot_cross_cyclic [of xn yn zn])
    then show ?thesis using normalized_dot_self [OF y] by simp
  next
    case False
    then obtain xn yn zn where x: "normalized (cross yn zn) = Some xn"
      and f: "plane_frame this1 = \<lparr>col0 = xn, col1 = yn, col2 = zn, translation = projection hp c\<rparr>"
      using assms
      by (auto simp add: computeLocalPlaneFrame_def Let_def split: if_splits option.splits)
    have "determinant (plane_frame this1) = dot xn (cross yn zn)"
      by (simp add: f determinant_def)
    then show ?thesis using normalized_dot_self [OF x] by simp
  qed
  then show ?thesis by (simp add: inverse_affine_def Let_def split: prod.splits)
qed

lemma edge_loop_Returned:
  "edge_loop pt es acc = Returned pb \<Longrightarrow>
   \<exists>ps. pb = acc @ ps \<and>
     list_all2 (\<lambda>e (x, y). \<exists>z. pt e = Some (x, y, z) \<and> \<bar>z\<bar> < 0.001) es ps"
proof (induction es arbitrary: acc)
  case Nil
  then show ?case by simp
next
  case (Cons e es)
  from Cons.prems obtain x y z where e: "pt e = Some (x, y, z)" and z: "\<bar>z\<bar> < 0.001"
    and rest: "edge_loop pt es (acc @ [(x, y)]) = Returned pb"
    by (auto split: option.splits if_splits)
  from Cons.IH [OF rest] obtain ps where ps: "pb = (acc @ [(x, y)]) @ ps"
    and all: "list_all2 (\<lambda>e (x, y). \<exists>z. pt e = Some (x, y, z) \<and> \<bar>z\<bar> < 0.001) es ps"
    by blast
  have "pb = acc @ ((x, y) # ps)" using ps by simp
  moreover have "list_all2 (\<lambda>e (x, y). \<exists>z. pt e = Some (x, y, z) \<and> \<bar>z\<bar> < 0.001)
      (e # es) ((x, y) # ps)" using e z all by simp
  ultimately show ?case by blast
qed

lemma edge_loop_not_Returned:
  "edge_loop pt es acc = AssertFailed \<or>
   (edge_loop pt es acc = Threw \<and> (\<exists>e\<in>set es. pt e = None)) \<or>
   (\<exists>pb. edge_loop pt es acc = Returned pb)"
  by (induction es arbitrary: acc) (auto split: option.splits)

lemma boundary_loop_Returned:
  "boundary_loop pt loops this = (Returned u, this') \<Longrightarrow>
   \<exists>bs. this' = this\<lparr>boundaries := boundaries this @ bs\<rparr> \<and>
     list_all2 (list_all2 (\<lambda>e (x, y). \<exists>z. pt e = Some (x, y, z) \<and> \<bar>z\<bar> < 0.001)) loops bs"
proof (induction loops arbitrary: this)
  case Nil
  then show ?case by simp
next
  case (Cons b loops)
  from Cons.prems obtain pb where pb: "edge_loop pt b [] = Returned pb"
    and rest: "boundary_loop pt loops (this\<lparr>boundaries := boundaries this @ [pb]\<rparr>)
        = (Returned u, this')"
    by (auto split: outcome.splits)
  from edge_loop_Returned [OF pb]
  have one: "list_all2 (\<lambda>e (x, y). \<exists>z. pt e = Some (x, y, z) \<and> \<bar>z\<bar> < 0.001) b pb" by simp
  from Cons.IH [OF rest] obtain bs where
    t: "this' = this\<lparr>boundaries := boundaries this @ [pb]\<rparr>
          \<lparr>boundaries := boundaries (this\<lparr>boundaries := boundaries this @ [pb]\<rparr>) @ bs\<rparr>"
    and all: "list_all2 (list_all2 (\<lambda>e (x, y). \<exists>z. pt e = Some (x, y, z) \<and> \<bar>z\<bar> < 0.001)) loops bs"
    by blast
  have "this' = this\<lparr>boundaries := boundaries this @ (pb # bs)\<rparr>" using t by simp
  moreover have "list_all2 (list_all2 (\<lambda>e (x, y). \<exists>z. pt e = Some (x, y, z) \<and> \<bar>z\<bar> < 0.001))
      (b # loops) (pb # bs)" using one all by simp
  ultimately show ?case by blast
qed

lemma boundary_loop_cases:
  "fst (boundary_loop pt loops this) = AssertFailed \<or>
   (fst (boundary_loop pt loops this) = Threw \<and> (\<exists>b\<in>set loops. \<exists>e\<in>set b. pt e = None)) \<or>
   (\<exists>u. fst (boundary_loop pt loops this) = Returned u)"
proof (induction loops arbitrary: this)
  case Nil
  then show ?case by simp
next
  case (Cons b loops)
  show ?case
    using edge_loop_not_Returned [of pt b "[]"]
      Cons.IH [of "this\<lparr>boundaries := boundaries this @ [the_pb]\<rparr>" for the_pb]
    by (auto split: outcome.splits)
qed

lemma boundary_loop_bad_vertex:
  assumes "b \<in> set loops" and "e \<in> set b" and "pt e = Some (x, y, z)" and "0.001 \<le> \<bar>z\<bar>"
  shows "fst (boundary_loop pt loops this) \<noteq> Returned u"
proof
  assume "fst (boundary_loop pt loops this) = Returned u"
  then obtain this' where "boundary_loop pt loops this = (Returned u, this')"
    by (cases "boundary_loop pt loops this") auto
  from boundary_loop_Returned [OF this] obtain bs where
    all: "list_all2 (list_all2 (\<lambda>e (x, y). \<exists>z. pt e = Some (x, y, z) \<and> \<bar>z\<bar> < 0.001)) loops bs"
    by blast
  obtain i where i: "i < length loops" "loops ! i = b"
    using assms(1) by (auto simp: in_set_conv_nth)
  have bi: "list_all2 (\<lambda>e (x, y). \<exists>z. pt e = Some (x, y, z) \<and> \<bar>z\<bar> < 0.001) b (bs ! i)"
    using list_all2_nthD [OF all i(1)] i(2) by simp
  obtain j where j: "j < length b" "b ! j = e"
    using assms(2) by (auto simp: in_set_conv_nth)
  have "case bs ! i ! j of (x, y) \<Rightarrow> \<exists>z. pt e = Some (x, y, z) \<and> \<bar>z\<bar> < 0.001"
    using list_all2_nthD [OF bi j(1)] j(2) by simp
  then show False using assms(3,4) by auto
qed

lemma stages_fst:
  assumes "computePlaneCoefficients (cloud input) seg = Returned (Inr hplane)"
    and "computeLocalPlaneFrame hplane (compute3DCentroid (cloud input))
           (this0\<lparr>plane_frame := Identity, boundaries := []\<rparr>) = Returned this1"
    and "polygons_loop 0 (polygons input) empty_Mesh [] = Returned (Inr (mesh, m))"
    and "inverse_affine (plane_frame this1) = Some pinv"
  shows "fst (calculateBoundaryData lib seg input this0) =
     (case fst (boundary_loop (plane_pt_of lib mesh m (cloud input) hplane pinv)
             (getBoundBoundaryHalfEdges lib mesh) this1) of
        Returned u \<Rightarrow> Returned (Inr ())
      | Threw \<Rightarrow> Threw
      | AssertFailed \<Rightarrow> AssertFailed
      | NotFinite \<Rightarrow> NotFinite)"
  unfolding calculateBoundaryData_stages [OF assms]
  by (cases "boundary_loop (plane_pt_of lib mesh m (cloud input) hplane pinv)
             (getBoundBoundaryHalfEdges lib mesh) this1")
     (auto split: outcome.splits)

lemma projection_on_plane:
  assumes "vnorm (normal h) = 1"
  shows "signedDistance h (projection h p) = 0"
proof -
  obtain a b c where n: "normal h = (a, b, c)" by (cases "normal h") auto
  obtain x y z where p: "p = (x, y, z)" by (cases p) auto
  have "squaredNorm (normal h) = 1"
    using assms squaredNorm_nonneg [of "normal h"] by (simp add: vnorm_def)
  then have u: "a * a + b * b + c * c = 1" by (simp add: n squaredNorm_def)
  have "signedDistance h (projection h p) =
      (a * x + b * y + c * z + offset h) * (1 - (a * a + b * b + c * c))"
    by (simp add: signedDistance_def projection_def n p algebra_simps)
  then show ?thesis by (simp add: u)
qed

lemma projection_along_normal:
  "vsub p (projection h p) = smult (signedDistance h p) (normal h)"
  by (cases p; cases "normal h") (simp add: projection_def)

lemma boundary_loop_frame:
  "boundary_loop pt loops this = (Returned u, this') \<Longrightarrow> plane_frame this' = plane_frame this"
  by (drule boundary_loop_Returned) auto

lemma polygons_loop_Inl:
  "polygons_loop ii faces mesh m = Returned (Inl e) \<Longrightarrow> \<exists>i n. e = NonTriangularFace i n \<and> n \<noteq> 3"
  by (induction ii faces mesh m rule: polygons_loop.induct)
     (auto split: if_splits outcome.splits prod.splits)

lemma computePlaneCoefficients_Inl:
  "computePlaneCoefficients points seg = Returned (Inl e) \<Longrightarrow>
   e = InsufficientFit \<or> e = NormalMismatch"
  by (auto simp: computePlaneCoefficients_def Let_def split: list.splits if_splits)

lemma computeLocalPlaneFrame_any_state:
  assumes "computeLocalPlaneFrame hp c this = Returned this1"
  shows "computeLocalPlaneFrame hp c other = Returned (other\<lparr>plane_frame := plane_frame this1\<rparr>)"
  using assms
  by (auto simp add: computeLocalPlaneFrame_def Let_def split: if_splits option.splits)

lemma flat_fit_ok:
  "computePlaneCoefficients flat_cloud flat_fit = Returned (Inr flat_plane)"
  using fit_flat by (simp add: flat_plane_def)

lemma raised_fit_ok:
  "computePlaneCoefficients raised_cloud raised_fit = Returned (Inr raised_plane)"
  using fit_raised by (simp add: raised_plane_def)

lemma flat_frame_ok:
  "computeLocalPlaneFrame flat_plane (compute3DCentroid flat_cloud) this =
     Returned (this\<lparr>plane_frame := flat_frame\<rparr>)"
  by (simp add: flat_plane_def centroid_flat frame_flat flat_frame_def)

lemma raised_frame_ok:
  "computeLocalPlaneFrame raised_plane (compute3DCentroid raised_cloud) this =
     Returned (this\<lparr>plane_frame := raised_frame\<rparr>)"
  by (simp add: raised_plane_def centroid_raised frame_raised raised_frame_def)

lemma one_triangle_built:
  "polygons_loop 0 [[0, 1, 2]] empty_Mesh [] = Returned (Inr (one_triangle_mesh, one_triangle_map))"
  using mesh_one_triangle by (simp add: one_triangle_mesh_def one_triangle_map_def)

lemma flat_inverse_ok: "inverse_affine flat_frame = Some flat_inverse"
  by (simp add: inverse_affine_def determinant_def flat_frame_def flat_inverse_def)

lemma raised_inverse_ok: "inverse_affine raised_frame = Some raised_inverse"
  by (simp add: inverse_affine_def determinant_def raised_frame_def raised_inverse_def)

lemma one_triangle_loops:
  "getBoundBoundaryHalfEdges one_triangle_lib one_triangle_mesh = [[1, 5, 3]]"
  by (simp add: one_triangle_lib_def one_triangle_mesh_def)

lemma raised_first_point:
  "plane_pt_of one_triangle_lib one_triangle_mesh one_triangle_map raised_cloud raised_plane
     raised_inverse (Suc 0) = Some (20 / 3, 0, - 16 / 3)"
  by (simp add: plane_pt_of_def one_triangle_lib_def one_triangle_map_def right_at_def
      raised_points raised_plane_def projection_def signedDistance_def raised_inverse_def)

lemma flat_points_local:
  "plane_pt_of one_triangle_lib one_triangle_mesh one_triangle_map flat_cloud flat_plane
     flat_inverse (Suc 0) = Some (4, 0, 0)"
  "plane_pt_of one_triangle_lib one_triangle_mesh one_triangle_map flat_cloud flat_plane
     flat_inverse 5 = Some (- 2, - 3, 0)"
  "plane_pt_of one_triangle_lib one_triangle_mesh one_triangle_map flat_cloud flat_plane
     flat_inverse 3 = Some (- 2, 3, 0)"
  by (simp_all add: plane_pt_of_def one_triangle_lib_def one_triangle_map_def right_at_def
      flat_points flat_plane_def projection_def signedDistance_def flat_inverse_def)

lemma raised_run:
  "calculateBoundaryData one_triangle_lib raised_fit raised_triangle new_importer =
     (AssertFailed, new_importer\<lparr>plane_frame := raised_frame\<rparr>)"
proof -
  have 1: "computePlaneCoefficients (cloud raised_triangle) raised_fit = Returned (Inr raised_plane)"
    by (simp add: raised_triangle_def raised_fit_ok)
  have 2: "computeLocalPlaneFrame raised_plane (compute3DCentroid (cloud raised_triangle))
      (new_importer\<lparr>plane_frame := Identity, boundaries := []\<rparr>)
      = Returned (new_importer\<lparr>plane_frame := raised_frame\<rparr>)"
    by (simp add: raised_triangle_def raised_frame_ok new_importer_def)
  have 3: "polygons_loop 0 (polygons raised_triangle) empty_Mesh [] =
     Returned (Inr (one_triangle_mesh, one_triangle_map))"
    by (simp del: polygons_loop.simps add: raised_triangle_def one_triangle_built)
  have 4: "inverse_affine (plane_frame (new_importer\<lparr>plane_frame := raised_frame\<rparr>))
      = Some raised_inverse"
    by (simp add: raised_inverse_ok)
  show ?thesis
    unfolding calculateBoundaryData_stages [OF 1 2 3 4]
    by (simp add: one_triangle_loops raised_triangle_def raised_first_point)
qed

lemma flat_run:
  "calculateBoundaryData one_triangle_lib flat_fit flat_triangle new_importer =
     (Returned (Inr ()),
      new_importer\<lparr>plane_frame := flat_frame, boundaries := [[(4, 0), (- 2, - 3), (- 2, 3)]]\<rparr>)"
proof -
  have 1: "computePlaneCoefficients (cloud flat_triangle) flat_fit = Returned (Inr flat_plane)"
    by (simp add: flat_triangle_def flat_fit_ok)
  have 2: "computeLocalPlaneFrame flat_plane (compute3DCentroid (cloud flat_triangle))
      (new_importer\<lparr>plane_frame := Identity, boundaries := []\<rparr>)
      = Returned (new_importer\<lparr>plane_frame := flat_frame\<rparr>)"
    by (simp add: flat_triangle_def flat_frame_ok new_importer_def)
  have 3: "polygons_loop 0 (polygons flat_triangle) empty_Mesh [] =
     Returned (Inr (one_triangle_mesh, one_triangle_map))"
    by (simp del: polygons_loop.simps add: flat_triangle_def one_triangle_built)
  have 4: "inverse_affine (plane_frame (new_importer\<lparr>plane_frame := flat_frame\<rparr>))
      = Some flat_inverse"
    by (simp add: flat_inverse_ok)
  show ?thesis
    unfolding calculateBoundaryData_stages [OF 1 2 3 4]
    by (simp add: one_triangle_loops flat_triangle_def flat_points_local new_importer_def)
qed

lemma vnorm_raised_normal: "vnorm (normal raised_plane) = 1"
  using vnorm_eqI [of 1 "(0, 0, 1)"] by (simp add: raised_plane_def squaredNorm_def)

lemma quad_face_index:
  "length (takeWhile (\<lambda>f. length f = 3) (polygons flat_with_quad)) = 1"
  by (simp add: flat_with_quad_def)

lemma computePlaneCoefficients_Threw:
  "computePlaneCoefficients points seg = Threw \<longleftrightarrow> points = []"
  by (cases points) (simp_all add: computePlaneCoefficients_def Let_def)

lemma computeLocalPlaneFrame_not_Threw:
  "computeLocalPlaneFrame hp c this \<noteq> Threw"
  by (simp add: computeLocalPlaneFrame_def Let_def split: option.splits)

lemma polygons_loop_not_Threw:
  "polygons_loop 0 faces empty_Mesh [] \<noteq> Threw"
proof (cases "\<forall>f\<in>set faces. length f = 3")
  case True
  then show ?thesis
    using polygons_loop_idx_map [OF True, of empty_Mesh "[]" 0]
    by (simp add: empty_Mesh_def)
next
  case False
  define pre where "pre = takeWhile (\<lambda>f. length f = 3) faces"
  define post where "post = dropWhile (\<lambda>f. length f = 3) faces"
  have parts: "faces = pre @ post" by (simp add: pre_def post_def)
  have ne: "post \<noteq> []" using False by (auto simp: post_def)
  then obtain badf rest where post: "post = badf # rest" by (cases post) auto
  have "length (hd post) \<noteq> 3"
    using ne hd_dropWhile [of "\<lambda>f. length f = 3" faces]
    unfolding post_def by blast
  then have badf: "length badf \<noteq> 3" by (simp add: post)
  have pre3: "\<forall>f\<in>set pre. length f = 3"
    by (auto simp: pre_def dest: set_takeWhileD)
  show ?thesis
    using polygons_loop_bad_face [OF pre3 badf, of empty_Mesh "[]" 0 rest]
    by (simp add: parts post empty_Mesh_def)
qed

lemma edge_loop_Threw:
  "edge_loop pt es acc = Threw \<Longrightarrow> \<exists>e\<in>set es. pt e = None"
  using edge_loop_not_Returned [of pt es acc] by auto

lemma boundary_loop_Threw:
  "boundary_loop pt loops this = (Threw, this') \<Longrightarrow>
   \<exists>bs. this' = this\<lparr>boundaries := boundaries this @ bs\<rparr> \<and>
     length bs < length loops \<and>
     list_all2 (list_all2 (\<lambda>e (x, y). \<exists>z. pt e = Some (x, y, z) \<and> \<bar>z\<bar> < 0.001))
       (take (length bs) loops) bs \<and>
     (\<exists>e\<in>set (loops ! length bs). pt e = None)"
proof (induction loops arbitrary: this)
  case Nil
  then show ?case by simp
next
  case (Cons b loops)
  let ?R = "\<lambda>e (x, y). \<exists>z. pt e = Some (x, y, z) \<and> \<bar>z\<bar> < 0.001"
  show ?case
  proof (cases "edge_loop pt b []")
    case (Returned pb)
    then have rest: "boundary_loop pt loops (this\<lparr>boundaries := boundaries this @ [pb]\<rparr>)
        = (Threw, this')"
      using Cons.prems by simp
    from edge_loop_Returned [OF Returned] have one: "list_all2 ?R b pb" by simp
    from Cons.IH [OF rest] obtain bs where
      t: "this' = this\<lparr>boundaries := boundaries this @ [pb]\<rparr>
            \<lparr>boundaries := boundaries (this\<lparr>boundaries := boundaries this @ [pb]\<rparr>) @ bs\<rparr>"
      and len: "length bs < length loops"
      and all: "list_all2 (list_all2 ?R) (take (length bs) loops) bs"
      and thrower: "\<exists>e\<in>set (loops ! length bs). pt e = None"
      by blast
    have "this' = this\<lparr>boundaries := boundaries this @ (pb # bs)\<rparr>" using t by simp
    moreover have "length (pb # bs) < length (b # loops)" using len by simp
    moreover have "list_all2 (list_all2 ?R) (take (length (pb # bs)) (b # loops)) (pb # bs)"
      using one all by simp
    moreover have "\<exists>e\<in>set ((b # loops) ! length (pb # bs)). pt e = None"
      using thrower by simp
    ultimately show ?thesis by blast
  next
    case Threw
    then have "this' = this" using Cons.prems by simp
    moreover have "\<exists>e\<in>set b. pt e = None" using edge_loop_Threw [OF Threw] .
    ultimately show ?thesis by (intro exI [of _ "[]"]) simp
  next
    case AssertFailed
    then show ?thesis using Cons.prems by simp
  next
    case NotFinite
    then show ?thesis using Cons.prems by simp
  qed
qed

lemma calculateBoundaryData_ThrewE:
  assumes "calculateBoundaryData lib seg input this0 = (Threw, this')"
  obtains
    (empty) "cloud input = []"
      and "this' = this0\<lparr>plane_frame := Identity, boundaries := []\<rparr>"
  | (lookup) hplane this1 mesh m pinv where
      "computePlaneCoefficients (cloud input) seg = Returned (Inr hplane)"
      and "computeLocalPlaneFrame hplane (compute3DCentroid (cloud input))
             (this0\<lparr>plane_frame := Identity, boundaries := []\<rparr>) = Returned this1"
      and "polygons_loop 0 (polygons input) empty_Mesh [] = Returned (Inr (mesh, m))"
      and "inverse_affine (plane_frame this1) = Some pinv"
      and "boundary_loop (plane_pt_of lib mesh m (cloud input) hplane pinv)
             (getBoundBoundaryHalfEdges lib mesh) this1 = (Threw, this')"
proof (cases "computePlaneCoefficients (cloud input) seg")
  case Threw
  then have "cloud input = []" by (simp add: computePlaneCoefficients_Threw)
  moreover have "this' = this0\<lparr>plane_frame := Identity, boundaries := []\<rparr>"
    using assms Threw by (simp add: calculateBoundaryData_def Let_def)
  ultimately show ?thesis by (rule empty)
next
  case (Returned fr)
  show ?thesis
  proof (cases fr)
    case (Inl e)
    then show ?thesis
      using assms Returned by (simp add: calculateBoundaryData_def Let_def)
  next
    case (Inr hplane)
    note fitted = Returned [unfolded Inr]
    show ?thesis
    proof (cases "computeLocalPlaneFrame hplane (compute3DCentroid (cloud input))
             (this0\<lparr>plane_frame := Identity, boundaries := []\<rparr>)")
      case framed: (Returned this1)
      show ?thesis
      proof (cases "polygons_loop 0 (polygons input) empty_Mesh []")
        case built: (Returned br)
        show ?thesis
        proof (cases br)
          case (Inl e)
          then show ?thesis
            using assms fitted framed built
            by (simp add: calculateBoundaryData_def Let_def)
        next
          case (Inr mm)
          obtain mesh m where mm: "mm = (mesh, m)" by (cases mm) auto
          note built' = built [unfolded Inr mm]
          show ?thesis
          proof (cases "inverse_affine (plane_frame this1)")
            case None
            then show ?thesis
              using assms fitted framed built'
              by (simp add: calculateBoundaryData_def Let_def)
          next
            case (Some pinv)
            obtain o1 t1 where bl: "boundary_loop (plane_pt_of lib mesh m (cloud input) hplane pinv)
                (getBoundBoundaryHalfEdges lib mesh) this1 = (o1, t1)" by fastforce
            have "calculateBoundaryData lib seg input this0 =
                (case (o1, t1) of
                  (Returned u, this) \<Rightarrow> (Returned (Inr ()), this)
                | (Threw, this) \<Rightarrow> (Threw, this)
                | (AssertFailed, this) \<Rightarrow> (AssertFailed, this)
                | (NotFinite, this) \<Rightarrow> (NotFinite, this))"
              using calculateBoundaryData_stages [OF fitted framed built' Some] bl by simp
            then show ?thesis
              using assms lookup [OF fitted framed built' Some] bl
              by (cases o1) auto
          qed
        qed
      next
        case Threw
        then show ?thesis using polygons_loop_not_Threw by blast
      qed (use assms fitted framed in \<open>simp_all add: calculateBoundaryData_def Let_def\<close>)
    next
      case Threw
      then show ?thesis using computeLocalPlaneFrame_not_Threw by blast
    qed (use assms fitted in \<open>simp_all add: calculateBoundaryData_def Let_def\<close>)
  qed
qed (use assms in \<open>simp_all add: calculateBoundaryData_def Let_def\<close>)

lemma tiny_points:
  "length tiny_cloud = 3" "xyz (tiny_cloud ! 0) = (19997 / 10000, - 3 / 10000, 4)"
  "xyz (tiny_cloud ! Suc 0) = (10003 / 5000, 0, 4)"
  "xyz (tiny_cloud ! 2) = (19997 / 10000, 3 / 10000, 4)"
  by (simp_all add: tiny_cloud_def)

lemma centroid_tiny: "compute3DCentroid tiny_cloud = (2, 0, 4)"
  by (simp add: compute3DCentroid_def tiny_cloud_def)

lemma down_fit_flipped:
  "computePlaneCoefficients tiny_cloud down_fit = Returned (Inr mirrored_plane)"
  using cos_EpsAngle_bounds
  by (simp add: computePlaneCoefficients_def tiny_cloud_def down_fit_def mirrored_plane_def
      not_less)

lemma mirrored_frame_ok:
  "computeLocalPlaneFrame mirrored_plane (2, 0, 4) this =
     Returned (this\<lparr>plane_frame := mirrored_frame\<rparr>)"
proof -
  have x: "normalized (3, 0, - 4) = Some (3 / 5, 0, - 4 / 5)"
    using normalizedI [of 5 "(3, 0, - 4)"] by (simp add: squaredNorm_def)
  have z: "normalized (0, 0, 1) = Some (0, 0, 1)"
    using normalizedI [of 1 "(0, 0, 1)"] by (simp add: squaredNorm_def)
  have y: "normalized (0, 3 / 5, 0) = Some (0, 1, 0)"
    using normalizedI [of "3 / 5" "(0, 3 / 5, 0)"] by (simp add: squaredNorm_def)
  show ?thesis
    by (simp add: computeLocalPlaneFrame_def mirrored_plane_def projection_def
        signedDistance_def UnitX_def x y z mirrored_frame_def)
qed

lemma mirrored_inverse_ok: "inverse_affine mirrored_frame = Some mirrored_inverse"
  by (simp add: inverse_affine_def determinant_def mirrored_frame_def mirrored_inverse_def)

lemma tiny_points_local:
  "plane_pt_of one_triangle_lib one_triangle_mesh one_triangle_map tiny_cloud mirrored_plane
     mirrored_inverse (Suc 0) = Some (1 / 1000, 0, 1 / 1250)"
  "plane_pt_of one_triangle_lib one_triangle_mesh one_triangle_map tiny_cloud mirrored_plane
     mirrored_inverse 5 = Some (- 1 / 2000, - 3 / 10000, - 1 / 2500)"
  "plane_pt_of one_triangle_lib one_triangle_mesh one_triangle_map tiny_cloud mirrored_plane
     mirrored_inverse 3 = Some (- 1 / 2000, 3 / 10000, - 1 / 2500)"
  by (simp_all add: plane_pt_of_def one_triangle_lib_def one_triangle_map_def right_at_def
      tiny_points mirrored_plane_def projection_def signedDistance_def mirrored_inverse_def)

lemma tiny_run:
  "calculateBoundaryData one_triangle_lib down_fit tiny_triangle new_importer =
     (Returned (Inr ()),
      new_importer\<lparr>plane_frame := mirrored_frame,
        boundaries := [[(1 / 1000, 0), (- 1 / 2000, - 3 / 10000), (- 1 / 2000, 3 / 10000)]]\<rparr>)"
proof -
  have 1: "computePlaneCoefficients (cloud tiny_triangle) down_fit = Returned (Inr mirrored_plane)"
    by (simp add: tiny_triangle_def down_fit_flipped)
  have 2: "computeLocalPlaneFrame mirrored_plane (compute3DCentroid (cloud tiny_triangle))
      (new_importer\<lparr>plane_frame := Identity, boundaries := []\<rparr>)
      = Returned (new_importer\<lparr>plane_frame := mirrored_frame\<rparr>)"
    by (simp add: tiny_triangle_def centroid_tiny mirrored_frame_ok new_importer_def)
  have 3: "polygons_loop 0 (polygons tiny_triangle) empty_Mesh [] =
     Returned (Inr (one_triangle_mesh, one_triangle_map))"
    by (simp del: polygons_loop.simps add: tiny_triangle_def one_triangle_built)
  have 4: "inverse_affine (plane_frame (new_importer\<lparr>plane_frame := mirrored_frame\<rparr>))
      = Some mirrored_inverse"
    by (simp add: mirrored_inverse_ok)
  show ?thesis
    unfolding calculateBoundaryData_stages [OF 1 2 3 4]
    by (simp add: one_triangle_loops tiny_triangle_def tiny_points_local new_importer_def)
qed

lemma two_triangles_built:
  "polygons_loop 0 [[0, 1, 2], [3, 4, 5]] empty_Mesh [] =
     Returned (Inr (two_triangle_mesh, two_triangle_map))"
  by (simp add: empty_Mesh_def left_count_def left_at_def addVertex_def bimap_insert_def
      addFace_def two_triangle_mesh_def two_triangle_map_def)

lemma two_triangle_loops:
  "getBoundBoundaryHalfEdges two_triangle_lib two_triangle_mesh = [[1, 5, 3], [7, 11, 9]]"
  by (simp add: two_triangle_lib_def two_triangle_mesh_def)

lemma dangling_points_local:
  "plane_pt_of two_triangle_lib two_triangle_mesh two_triangle_map flat_cloud flat_plane
     flat_inverse (Suc 0) = Some (4, 0, 0)"
  "plane_pt_of two_triangle_lib two_triangle_mesh two_triangle_map flat_cloud flat_plane
     flat_inverse 5 = Some (- 2, - 3, 0)"
  "plane_pt_of two_triangle_lib two_triangle_mesh two_triangle_map flat_cloud flat_plane
     flat_inverse 3 = Some (- 2, 3, 0)"
  "plane_pt_of two_triangle_lib two_triangle_mesh two_triangle_map flat_cloud flat_plane
     flat_inverse 7 = None"
  by (simp_all add: plane_pt_of_def two_triangle_lib_def two_triangle_map_def right_at_def
      flat_points flat_plane_def projection_def signedDistance_def flat_inverse_def)

lemma dangling_run:
  "calculateBoundaryData two_triangle_lib flat_fit dangling_faces new_importer =
     (Threw, new_importer\<lparr>plane_frame := flat_frame,
               boundaries := [[(4, 0), (- 2, - 3), (- 2, 3)]]\<rparr>)"
proof -
  have 1: "computePlaneCoefficients (cloud dangling_faces) flat_fit = Returned (Inr flat_plane)"
    by (simp add: dangling_faces_def flat_fit_ok)
  have 2: "computeLocalPlaneFrame flat_plane (compute3DCentroid (cloud dangling_faces))
      (new_importer\<lparr>plane_frame := Identity, boundaries := []\<rparr>)
      = Returned (new_importer\<lparr>plane_frame := flat_frame\<rparr>)"
    by (simp add: dangling_faces_def flat_frame_ok new_importer_def)
  have 3: "polygons_loop 0 (polygons dangling_faces) empty_Mesh [] =
     Returned (Inr (two_triangle_mesh, two_triangle_map))"
    by (simp del: polygons_loop.simps add: dangling_faces_def two_triangles_built)
  have 4: "inverse_affine (plane_frame (new_importer\<lparr>plane_frame := flat_frame\<rparr>))
      = Some flat_inverse"
    by (simp add: flat_inverse_ok)
  show ?thesis
    unfolding calculateBoundaryData_stages [OF 1 2 3 4]
    by (simp add: two_triangle_loops dangling_faces_def dangling_points_local new_importer_def)
qed

text \<open>
  What holds of the frame after a successful call, relative to the plane that
  \<^verbatim>\<open>computePlaneCoefficients\<close> returns (which is the fitted plane when the normal is not
  flipped or the offset is 0).
\<close>

lemma plane_frame_of_returned_plane:
  assumes run: "calculateBoundaryData lib seg input this0 = (Returned (Inr ()), this')"
  shows "\<exists>hplane. computePlaneCoefficients (cloud input) seg = Returned (Inr hplane) \<and>
     translation (plane_frame this') = projection hplane (compute3DCentroid (cloud input)) \<and>
     normalized (normal hplane) = Some (col2 (plane_frame this')) \<and>
     vnorm (col2 (plane_frame this')) = 1 \<and>
     (vnorm (normal hplane) = 1 \<longrightarrow>
        col2 (plane_frame this') = normal hplane \<and>
        signedDistance hplane (translation (plane_frame this')) = 0 \<and>
        vsub (compute3DCentroid (cloud input)) (translation (plane_frame this')) =
          smult (signedDistance hplane (compute3DCentroid (cloud input))) (normal hplane))"
  using run
proof (cases rule: calculateBoundaryData_ReturnedE)
  case (ok hplane this1 mesh m pinv u)
  have fr: "plane_frame this' = plane_frame this1"
    using boundary_loop_frame [OF ok(5)] .
  have t: "translation (plane_frame this') = projection hplane (compute3DCentroid (cloud input))"
    using computeLocalPlaneFrame_fields(3) [OF ok(2)] by (simp add: fr)
  have z: "normalized (normal hplane) = Some (col2 (plane_frame this'))"
    using computeLocalPlaneFrame_fields(4) [OF ok(2)] by (simp add: fr)
  have u: "vnorm (col2 (plane_frame this')) = 1"
    using normalized_unit [OF z] .
  have unit: "col2 (plane_frame this') = normal hplane \<and>
        signedDistance hplane (translation (plane_frame this')) = 0 \<and>
        vsub (compute3DCentroid (cloud input)) (translation (plane_frame this')) =
          smult (signedDistance hplane (compute3DCentroid (cloud input))) (normal hplane)"
    if one: "vnorm (normal hplane) = 1"
    using z normalized_eq_unit [OF one] projection_on_plane [OF one]
      projection_along_normal [of "compute3DCentroid (cloud input)" hplane]
    by (simp add: t)
  show ?thesis using ok(1) t z u unit by blast
qed simp_all

section \<open>The claims\<close>

text \<open>
  C1. Claimed: for every well-formed plane and centroid, \<^verbatim>\<open>computeLocalPlaneFrame\<close> produces
  an orthonormal, right-handed frame, and in the branch \<open>|normal . X| < 0.8\<close> the local X
  axis is perpendicular to the plane normal.

  The source normalises the projected point \<^verbatim>\<open>x_axis\<close> itself (line 138), not its offset
  from \<^verbatim>\<open>origin\<close>, so the first column is perpendicular to the normal only on a plane
  through the world origin. On the plane \<open>z = 4\<close> (unit normal \<open>(0, 0, 1)\<close>, offset \<open>-4\<close>) with
  centroid \<open>(2, 0, 4)\<close> the frame comes out with first column \<open>(3/5, 0, 4/5)\<close>, whose dot
  product with the normal is \<open>4/5\<close>.
\<close>

theorem frame_on_raised_plane_not_orthogonal:
  "computePlaneCoefficients raised_cloud raised_fit = Returned (Inr raised_plane) \<and>
   compute3DCentroid raised_cloud = (2, 0, 4) \<and>
   vnorm (normal raised_plane) = 1 \<and>
   \<bar>dot (normal raised_plane) UnitX\<bar> < 0.8 \<and>
   computeLocalPlaneFrame raised_plane (2, 0, 4) new_importer =
     Returned (new_importer\<lparr>plane_frame :=
       \<lparr>col0 = (3 / 5, 0, 4 / 5), col1 = (0, 1, 0), col2 = (0, 0, 1), translation = (2, 0, 4)\<rparr>\<rparr>) \<and>
   dot (3 / 5, 0, 4 / 5) (normal raised_plane) = 4 / 5"
  using frame_raised [of new_importer] vnorm_raised_normal raised_fit_ok centroid_raised
  by (simp add: raised_plane_def UnitX_def)

text \<open>
  C2. Claimed: a boundary vertex whose local Z has absolute value at least 0.001 makes the
  call return a recoverable error.

  The source checks the residual with \<^verbatim>\<open>ROS_ASSERT\<close> (line 118), and no statement after
  the face loop returns false. What holds: when the call reaches the projection and some
  boundary vertex has \<open>|z| \<ge> 0.001\<close>, the call does not return; the assertion fails, unless
  a vertex lookup has thrown before.
\<close>

theorem residual_assertion_stops_call:
  assumes "computePlaneCoefficients (cloud input) seg = Returned (Inr hplane)"
    and "computeLocalPlaneFrame hplane (compute3DCentroid (cloud input))
           (this0\<lparr>plane_frame := Identity, boundaries := []\<rparr>) = Returned this1"
    and "polygons_loop 0 (polygons input) empty_Mesh [] = Returned (Inr (mesh, m))"
    and "inverse_affine (plane_frame this1) = Some pinv"
    and "boundary \<in> set (getBoundBoundaryHalfEdges lib mesh)" and "edge \<in> set boundary"
    and "plane_pt_of lib mesh m (cloud input) hplane pinv edge = Some (x, y, z)"
    and "0.001 \<le> \<bar>z\<bar>"
  shows "fst (calculateBoundaryData lib seg input this0) = AssertFailed \<or>
         (fst (calculateBoundaryData lib seg input this0) = Threw \<and>
          (\<exists>b\<in>set (getBoundBoundaryHalfEdges lib mesh). \<exists>e\<in>set b.
             plane_pt_of lib mesh m (cloud input) hplane pinv e = None))"
proof -
  let ?pt = "plane_pt_of lib mesh m (cloud input) hplane pinv"
  let ?loops = "getBoundBoundaryHalfEdges lib mesh"
  have no: "fst (boundary_loop ?pt ?loops this1) \<noteq> Returned u" for u
    by (rule boundary_loop_bad_vertex [where pt = ?pt, OF assms(5) assms(6) assms(7) assms(8)])
  have "fst (boundary_loop ?pt ?loops this1) = AssertFailed \<or>
        (fst (boundary_loop ?pt ?loops this1) = Threw \<and> (\<exists>b\<in>set ?loops. \<exists>e\<in>set b. ?pt e = None))"
    using boundary_loop_cases [of ?pt ?loops this1] no by blast
  then show ?thesis
    unfolding stages_fst [OF assms(1) assms(2) assms(3) assms(4)] by auto
qed

text \<open>The hypotheses of the theorem hold for the raised triangle, where the assertion fails.\<close>

theorem residual_assertion_witness:
  "computePlaneCoefficients (cloud raised_triangle) raised_fit = Returned (Inr raised_plane) \<and>
   inverse_affine raised_frame = Some raised_inverse \<and>
   (0.001 :: real) \<le> \<bar>- 16 / 3\<bar> \<and>
   fst (calculateBoundaryData one_triangle_lib raised_fit raised_triangle new_importer) = AssertFailed"
proof -
  have 1: "computePlaneCoefficients (cloud raised_triangle) raised_fit = Returned (Inr raised_plane)"
    by (simp add: raised_triangle_def raised_fit_ok)
  have 2: "computeLocalPlaneFrame raised_plane (compute3DCentroid (cloud raised_triangle))
      (new_importer\<lparr>plane_frame := Identity, boundaries := []\<rparr>)
      = Returned (new_importer\<lparr>plane_frame := raised_frame\<rparr>)"
    by (simp add: raised_triangle_def raised_frame_ok new_importer_def)
  have 3: "polygons_loop 0 (polygons raised_triangle) empty_Mesh [] =
     Returned (Inr (one_triangle_mesh, one_triangle_map))"
    by (simp del: polygons_loop.simps add: raised_triangle_def one_triangle_built)
  have 4: "inverse_affine (plane_frame (new_importer\<lparr>plane_frame := raised_frame\<rparr>))
      = Some raised_inverse"
    by (simp add: raised_inverse_ok)
  have 5: "[1, 5, 3] \<in> set (getBoundBoundaryHalfEdges one_triangle_lib one_triangle_mesh)"
    by (simp add: one_triangle_loops)
  have 6: "1 \<in> set [1, 5, 3 :: nat]" by simp
  have 7: "plane_pt_of one_triangle_lib one_triangle_mesh one_triangle_map (cloud raised_triangle)
      raised_plane raised_inverse 1 = Some (20 / 3, 0, - 16 / 3)"
    using raised_first_point by (simp add: raised_triangle_def)
  have 8: "(0.001 :: real) \<le> \<bar>- 16 / 3\<bar>" by simp
  show ?thesis
    using residual_assertion_stops_call [OF 1 2 3 4 5 6 7 8] 1 raised_inverse_ok 8 raised_run
    by simp
qed

text \<open>
  The raised triangle: the first boundary vertex has local \<open>z = -16/3\<close>, and the call ends
  in the failed assertion, not in a returned error.
\<close>

theorem residual_assertion_counterexample:
  "getBoundBoundaryHalfEdges one_triangle_lib one_triangle_mesh = [[1, 5, 3]] \<and>
   plane_pt_of one_triangle_lib one_triangle_mesh one_triangle_map raised_cloud raised_plane
     raised_inverse 1 = Some (20 / 3, 0, - 16 / 3) \<and>
   calculateBoundaryData one_triangle_lib raised_fit raised_triangle new_importer =
     (AssertFailed, new_importer\<lparr>plane_frame := raised_frame\<rparr>)"
  using one_triangle_loops raised_first_point raised_run by simp

text \<open>
  C3. Claimed: an input with zero points or zero faces fails with EmptyInput.

  The source has no such check. With zero points, \<^verbatim>\<open>cloud->points.at(0)\<close> (line 164)
  throws. With zero faces, the face loop runs no iteration: the call returns false only
  when plane estimation does, and returns true with no boundary when estimation and the
  frame succeed and the extractor finds no loop in the empty mesh.
\<close>

theorem empty_input_behaviour:
  "(cloud input = [] \<longrightarrow>
      calculateBoundaryData lib seg input this0 =
        (Threw, this0\<lparr>plane_frame := Identity, boundaries := []\<rparr>)) \<and>
   (polygons input = [] \<longrightarrow>
      (\<forall>e this'. calculateBoundaryData lib seg input this0 = (Returned (Inl e), this') \<longrightarrow>
         computePlaneCoefficients (cloud input) seg = Returned (Inl e)) \<and>
      (\<forall>hplane this1.
         computePlaneCoefficients (cloud input) seg = Returned (Inr hplane) \<longrightarrow>
         computeLocalPlaneFrame hplane (compute3DCentroid (cloud input))
           (this0\<lparr>plane_frame := Identity, boundaries := []\<rparr>) = Returned this1 \<longrightarrow>
         getBoundBoundaryHalfEdges lib empty_Mesh = [] \<longrightarrow>
         calculateBoundaryData lib seg input this0 = (Returned (Inr ()), this1) \<and>
         boundaries this1 = []))"
proof (intro conjI impI allI)
  assume "cloud input = []"
  then show "calculateBoundaryData lib seg input this0 =
      (Threw, this0\<lparr>plane_frame := Identity, boundaries := []\<rparr>)"
    by (simp add: calculateBoundaryData_def computePlaneCoefficients_def)
next
  fix e this'
  assume p: "polygons input = []"
    and r: "calculateBoundaryData lib seg input this0 = (Returned (Inl e), this')"
  from r show "computePlaneCoefficients (cloud input) seg = Returned (Inl e)"
    by (cases rule: calculateBoundaryData_ReturnedE) (simp_all add: p)
next
  fix hplane this1
  assume p: "polygons input = []"
    and fit: "computePlaneCoefficients (cloud input) seg = Returned (Inr hplane)"
    and frame: "computeLocalPlaneFrame hplane (compute3DCentroid (cloud input))
           (this0\<lparr>plane_frame := Identity, boundaries := []\<rparr>) = Returned this1"
    and none: "getBoundBoundaryHalfEdges lib empty_Mesh = []"
  obtain pinv where pinv: "inverse_affine (plane_frame this1) = Some pinv"
    using frame_invertible [OF frame] by blast
  have built: "polygons_loop 0 (polygons input) empty_Mesh [] = Returned (Inr (empty_Mesh, []))"
    by (simp add: p)
  show "calculateBoundaryData lib seg input this0 = (Returned (Inr ()), this1)"
    unfolding calculateBoundaryData_stages [OF fit frame built pinv] by (simp add: none)
  show "boundaries this1 = []"
    using computeLocalPlaneFrame_fields(1) [OF frame] by simp
qed

text \<open>Both parts of the theorem at concrete inputs: no points, and a flat cloud with no faces.\<close>

theorem empty_input_witness:
  "cloud no_points = [] \<and>
   calculateBoundaryData one_triangle_lib flat_fit no_points new_importer = (Threw, new_importer) \<and>
   polygons flat_no_faces = [] \<and>
   computePlaneCoefficients (cloud flat_no_faces) flat_fit = Returned (Inr flat_plane) \<and>
   getBoundBoundaryHalfEdges one_triangle_lib empty_Mesh = [] \<and>
   calculateBoundaryData one_triangle_lib flat_fit flat_no_faces new_importer =
     (Returned (Inr ()), new_importer\<lparr>plane_frame := flat_frame\<rparr>)"
proof -
  have 0: "cloud no_points = []" by (simp add: no_points_def)
  have p: "polygons flat_no_faces = []" by (simp add: flat_no_faces_def)
  have 1: "computePlaneCoefficients (cloud flat_no_faces) flat_fit = Returned (Inr flat_plane)"
    by (simp add: flat_no_faces_def flat_fit_ok)
  have 2: "computeLocalPlaneFrame flat_plane (compute3DCentroid (cloud flat_no_faces))
      (new_importer\<lparr>plane_frame := Identity, boundaries := []\<rparr>)
      = Returned (new_importer\<lparr>plane_frame := flat_frame\<rparr>)"
    by (simp add: flat_no_faces_def flat_frame_ok new_importer_def)
  have 3: "getBoundBoundaryHalfEdges one_triangle_lib empty_Mesh = []"
    by (simp add: one_triangle_lib_def empty_Mesh_def)
  have r: "new_importer\<lparr>plane_frame := Identity, boundaries := []\<rparr> = new_importer"
    by (simp add: new_importer_def)
  show ?thesis
    using empty_input_behaviour [of no_points one_triangle_lib flat_fit new_importer]
      empty_input_behaviour [of flat_no_faces one_triangle_lib flat_fit new_importer]
      0 p 1 2 3 r
    by simp
qed

text \<open>
  A flat cloud with no faces returns true with an empty boundary list; an input with no
  points throws.
\<close>

theorem empty_input_counterexample:
  "polygons flat_no_faces = [] \<and>
   calculateBoundaryData one_triangle_lib flat_fit flat_no_faces new_importer =
     (Returned (Inr ()), new_importer\<lparr>plane_frame := flat_frame\<rparr>) \<and>
   boundaries (new_importer\<lparr>plane_frame := flat_frame\<rparr>) = [] \<and>
   cloud no_points = [] \<and>
   calculateBoundaryData one_triangle_lib flat_fit no_points new_importer = (Threw, new_importer)"
proof -
  have 1: "computePlaneCoefficients (cloud flat_no_faces) flat_fit = Returned (Inr flat_plane)"
    by (simp add: flat_no_faces_def flat_fit_ok)
  have 2: "computeLocalPlaneFrame flat_plane (compute3DCentroid (cloud flat_no_faces))
      (new_importer\<lparr>plane_frame := Identity, boundaries := []\<rparr>)
      = Returned (new_importer\<lparr>plane_frame := flat_frame\<rparr>)"
    by (simp add: flat_no_faces_def flat_frame_ok new_importer_def)
  have 3: "polygons_loop 0 (polygons flat_no_faces) empty_Mesh [] = Returned (Inr (empty_Mesh, []))"
    by (simp add: flat_no_faces_def)
  have 4: "inverse_affine (plane_frame (new_importer\<lparr>plane_frame := flat_frame\<rparr>))
      = Some flat_inverse"
    by (simp add: flat_inverse_ok)
  have a: "calculateBoundaryData one_triangle_lib flat_fit flat_no_faces new_importer =
     (Returned (Inr ()), new_importer\<lparr>plane_frame := flat_frame\<rparr>)"
    unfolding calculateBoundaryData_stages [OF 1 2 3 4]
    by (simp add: one_triangle_lib_def empty_Mesh_def)
  have b: "calculateBoundaryData one_triangle_lib flat_fit no_points new_importer = (Threw, new_importer)"
    by (simp add: calculateBoundaryData_def computePlaneCoefficients_def no_points_def
        new_importer_def)
  show ?thesis using a b by (simp add: flat_no_faces_def no_points_def new_importer_def)
qed

text \<open>
  C4. Claimed: for every non-empty cloud the estimator fails with InsufficientFit exactly
  when the number of inliers divided by the number of points is below 0.9, and the whole
  call then aborts.

  The inlier test stands behind \<^verbatim>\<open>ROS_ASSERT(coefficients.values.size() == 4)\<close> (line
  171). What holds: for a non-empty cloud and a fit of four coefficients, the estimator
  returns false for InsufficientFit exactly when the ratio is below 0.9, and the call then
  returns false with the frame at identity and no boundary.
\<close>

theorem insufficient_fit_iff:
  assumes "points \<noteq> []"
  shows "(length (coefficients seg) = 4 \<longrightarrow>
            (computePlaneCoefficients points seg = Returned (Inl InsufficientFit)
               \<longleftrightarrow> real (length (inliers seg)) / real (length points) < 0.9) \<and>
            (real (length (inliers seg)) / real (length points) < 0.9 \<longrightarrow>
               calculateBoundaryData lib seg \<lparr>cloud = points, polygons = faces\<rparr> this =
                 (Returned (Inl InsufficientFit),
                  this\<lparr>plane_frame := Identity, boundaries := []\<rparr>))) \<and>
         (length (coefficients seg) \<noteq> 4 \<longrightarrow>
            computePlaneCoefficients points seg = AssertFailed \<and>
            calculateBoundaryData lib seg \<lparr>cloud = points, polygons = faces\<rparr> this =
              (AssertFailed, this\<lparr>plane_frame := Identity, boundaries := []\<rparr>))"
  using assms
  by (cases points) (simp_all add: computePlaneCoefficients_def calculateBoundaryData_def Let_def)

text \<open>Two inliers of three points: the ratio is below 0.9 and the call returns false.\<close>

theorem insufficient_fit_witness:
  "flat_cloud \<noteq> [] \<and> length (coefficients two_inliers) = 4 \<and>
   real (length (inliers two_inliers)) / real (length flat_cloud) < 0.9 \<and>
   computePlaneCoefficients flat_cloud two_inliers = Returned (Inl InsufficientFit) \<and>
   calculateBoundaryData one_triangle_lib two_inliers \<lparr>cloud = flat_cloud, polygons = [[0, 1, 2]]\<rparr>
       used_importer =
     (Returned (Inl InsufficientFit), used_importer\<lparr>plane_frame := Identity, boundaries := []\<rparr>) \<and>
   length (coefficients no_model) \<noteq> 4 \<and>
   computePlaneCoefficients flat_cloud no_model = AssertFailed"
proof -
  have 1: "flat_cloud \<noteq> []" by (simp add: flat_cloud_def)
  have 2: "length (coefficients two_inliers) = 4" by (simp add: two_inliers_def)
  have 3: "real (length (inliers two_inliers)) / real (length flat_cloud) < 0.9"
    by (simp add: two_inliers_def flat_points)
  have 4: "length (coefficients no_model) \<noteq> 4" by (simp add: no_model_def)
  show ?thesis
    using insufficient_fit_iff [OF 1, of two_inliers one_triangle_lib "[[0, 1, 2]]" used_importer]
      insufficient_fit_iff [OF 1, of no_model one_triangle_lib "[[0, 1, 2]]" used_importer]
      1 2 3 4
    by simp
qed

text \<open>
  A cloud of one point, for which the consensus fit finds no model and hands back no
  coefficients: the ratio is 0, and the estimator stops in the failed assertion.
\<close>

theorem insufficient_fit_counterexample:
  "one_point_cloud \<noteq> [] \<and>
   real (length (inliers no_model)) / real (length one_point_cloud) < 0.9 \<and>
   computePlaneCoefficients one_point_cloud no_model = AssertFailed \<and>
   fst (calculateBoundaryData one_triangle_lib no_model
          \<lparr>cloud = one_point_cloud, polygons = []\<rparr> new_importer) = AssertFailed"
  by (simp add: one_point_cloud_def no_model_def computePlaneCoefficients_def
      calculateBoundaryData_def)

text \<open>
  C5. For a fit of four coefficients on a non-empty cloud: the fitted normal is negated
  exactly when its dot product with the first point's normal is negative; the estimator
  fails with NormalMismatch exactly when the inlier test passed and the dot product of
  the corrected normal with the seed is below \<open>cos 0.5\<close>; otherwise the plane it returns has
  the corrected normal, whose dot product with the seed is not negative.
\<close>

theorem normal_orientation:
  assumes "points \<noteq> []" and "length (coefficients seg) = 4"
  shows "let seed = normal_xyz (hd points);
             fitted = (coefficients seg ! 0, coefficients seg ! 1, coefficients seg ! 2);
             corrected = (if dot fitted seed < 0 then smult (- 1) fitted else fitted);
             enough = (\<not> real (length (inliers seg)) / real (length points) < 0.9)
         in (computePlaneCoefficients points seg = Returned (Inl NormalMismatch)
               \<longleftrightarrow> enough \<and> dot corrected seed < cos 0.5) \<and>
            (enough \<and> \<not> dot corrected seed < cos 0.5 \<longrightarrow>
               computePlaneCoefficients points seg =
                 Returned (Inr \<lparr>normal = corrected, offset = coefficients seg ! 3\<rparr>)) \<and>
            (\<forall>hp. computePlaneCoefficients points seg = Returned (Inr hp) \<longrightarrow>
               normal hp = corrected \<and> 0 \<le> dot (normal hp) seed) \<and>
            dot corrected seed = \<bar>dot fitted seed\<bar>"
proof -
  obtain p0 rest where ps: "points = p0 # rest" using assms(1) by (cases points) auto
  obtain a b c where seed: "normal_xyz p0 = (a, b, c)" by (cases "normal_xyz p0") auto
  have pos: "0 < cos (5 / 10 :: real)"
    using cos_EpsAngle_bounds by (simp add: EpsAngle_def)
  show ?thesis
    using assms(2) pos
    by (auto simp add: ps seed computePlaneCoefficients_def Let_def EpsAngle_def)
qed

text \<open>A fit that points the other way is flipped; a fit at a right angle is refused.\<close>

theorem normal_orientation_witness:
  "flat_cloud \<noteq> [] \<and> length (coefficients flipped_fit) = 4 \<and>
   dot (0, 0, - 1) (normal_xyz (hd flat_cloud)) < 0 \<and>
   computePlaneCoefficients flat_cloud flipped_fit = Returned (Inr \<lparr>normal = (0, 0, 1), offset = 0\<rparr>) \<and>
   length (coefficients sideways_fit) = 4 \<and>
   dot (1, 0, 0) (normal_xyz (hd flat_cloud)) = 0 \<and>
   computePlaneCoefficients flat_cloud sideways_fit = Returned (Inl NormalMismatch)"
proof -
  have 1: "flat_cloud \<noteq> []" by (simp add: flat_cloud_def)
  have 2: "length (coefficients flipped_fit) = 4" by (simp add: flipped_fit_def)
  have 3: "length (coefficients sideways_fit) = 4" by (simp add: sideways_fit_def)
  have h: "normal_xyz (hd flat_cloud) = (0, 0, 1)" by (simp add: flat_cloud_def)
  have c: "\<not> 1 < cos (5 / 10 :: real)" "0 < cos (5 / 10 :: real)"
    using cos_EpsAngle_bounds by (simp_all add: EpsAngle_def not_less)
  have n: "\<not> real (length (inliers flipped_fit)) / real (length flat_cloud) < 0.9"
    "\<not> real (length (inliers sideways_fit)) / real (length flat_cloud) < 0.9"
    by (simp_all add: flipped_fit_def sideways_fit_def flat_points)
  show ?thesis
    using normal_orientation [OF 1 2] normal_orientation [OF 1 3] 1 2 3 c n
    by (simp add: Let_def h flipped_fit_def sideways_fit_def)
qed

text \<open>
  C6. Claimed: every input with a face that has not three vertices makes the call abort
  with NonTriangularFace at the first such face, with an empty boundary list.

  The face loop stands behind plane estimation (lines 59 to 63) and the frame: an input
  whose fit has too few inliers returns false for InsufficientFit before any face is
  looked at, and one without points throws. What holds: on such an input no returning
  call succeeds and none leaves a boundary behind; and when plane estimation returns a
  plane and the frame is built (no zero vector is normalised), the call returns false at
  the first such face, naming its index and its number of sides, with an empty boundary
  list; and when plane estimation returns false, throws or fails its assertion, the call
  ends the same way, with the object reset.
\<close>

theorem non_triangular_face_aborts:
  assumes bad: "\<exists>f\<in>set (polygons input). length f \<noteq> 3"
  shows "let i = length (takeWhile (\<lambda>f. length f = 3) (polygons input)) in
     i < length (polygons input) \<and> length (polygons input ! i) \<noteq> 3 \<and>
     (\<forall>j<i. length (polygons input ! j) = 3) \<and>
     (\<forall>r this'. calculateBoundaryData lib seg input this0 = (Returned r, this') \<longrightarrow>
        r \<noteq> Inr () \<and> boundaries this' = []) \<and>
     (\<forall>hplane this1.
        computePlaneCoefficients (cloud input) seg = Returned (Inr hplane) \<longrightarrow>
        computeLocalPlaneFrame hplane (compute3DCentroid (cloud input))
          (this0\<lparr>plane_frame := Identity, boundaries := []\<rparr>) = Returned this1 \<longrightarrow>
        calculateBoundaryData lib seg input this0 =
          (Returned (Inl (NonTriangularFace i (length (polygons input ! i)))), this1) \<and>
        boundaries this1 = []) \<and>
     (\<forall>e. computePlaneCoefficients (cloud input) seg = Returned (Inl e) \<longrightarrow>
        calculateBoundaryData lib seg input this0 =
          (Returned (Inl e), this0\<lparr>plane_frame := Identity, boundaries := []\<rparr>)) \<and>
     (computePlaneCoefficients (cloud input) seg = Threw \<longrightarrow>
        calculateBoundaryData lib seg input this0 =
          (Threw, this0\<lparr>plane_frame := Identity, boundaries := []\<rparr>)) \<and>
     (computePlaneCoefficients (cloud input) seg = AssertFailed \<longrightarrow>
        calculateBoundaryData lib seg input this0 =
          (AssertFailed, this0\<lparr>plane_frame := Identity, boundaries := []\<rparr>))"
proof -
  define pre where "pre = takeWhile (\<lambda>f. length f = 3) (polygons input)"
  define post where "post = dropWhile (\<lambda>f. length f = 3) (polygons input)"
  have split: "polygons input = pre @ post" by (simp add: pre_def post_def)
  have ne: "post \<noteq> []" using bad by (auto simp: post_def)
  then obtain badf rest where post: "post = badf # rest" by (cases post) auto
  have "length (hd post) \<noteq> 3"
    using ne hd_dropWhile [of "\<lambda>f. length f = 3" "polygons input"]
    unfolding post_def by blast
  then have badf: "length badf \<noteq> 3" by (simp add: post)
  have pre3: "\<forall>f\<in>set pre. length f = 3"
    by (auto simp: pre_def dest: set_takeWhileD)
  have i1: "length pre < length (polygons input)" by (simp add: split post)
  have i2: "polygons input ! length pre = badf" by (simp add: split post)
  have i3: "\<forall>j<length pre. length (polygons input ! j) = 3"
    using pre3 by (simp add: split nth_append)
  have loop: "polygons_loop 0 (polygons input) empty_Mesh [] =
      Returned (Inl (NonTriangularFace (length pre) (length badf)))"
    using polygons_loop_bad_face [OF pre3 badf, of empty_Mesh "[]" 0 rest]
    by (simp add: split post empty_Mesh_def)
  have all: "r \<noteq> Inr () \<and> boundaries this' = []"
    if "calculateBoundaryData lib seg input this0 = (Returned r, this')" for r this'
    using that
  proof (cases rule: calculateBoundaryData_ReturnedE)
    case (fit e)
    then show ?thesis by simp
  next
    case (face hplane e)
    then show ?thesis using computeLocalPlaneFrame_fields(1) [OF face(2)] by simp
  next
    case (ok hplane this1 mesh m pinv u)
    then show ?thesis using loop by simp
  qed
  have kind: "calculateBoundaryData lib seg input this0 =
          (Returned (Inl (NonTriangularFace (length pre) (length badf))), this1) \<and>
        boundaries this1 = []"
    if "computePlaneCoefficients (cloud input) seg = Returned (Inr hplane)"
      and "computeLocalPlaneFrame hplane (compute3DCentroid (cloud input))
          (this0\<lparr>plane_frame := Identity, boundaries := []\<rparr>) = Returned this1"
    for hplane this1
    using calculateBoundaryData_bad_face [OF that loop]
      computeLocalPlaneFrame_fields(1) [OF that(2)] by simp
  have early: "calculateBoundaryData lib seg input this0 =
          (Returned (Inl e), this0\<lparr>plane_frame := Identity, boundaries := []\<rparr>)"
    if "computePlaneCoefficients (cloud input) seg = Returned (Inl e)" for e
    using that by (simp add: calculateBoundaryData_def Let_def)
  have thrown: "calculateBoundaryData lib seg input this0 =
          (Threw, this0\<lparr>plane_frame := Identity, boundaries := []\<rparr>)"
    if "computePlaneCoefficients (cloud input) seg = Threw"
    using that by (simp add: calculateBoundaryData_def Let_def)
  have asserted: "calculateBoundaryData lib seg input this0 =
          (AssertFailed, this0\<lparr>plane_frame := Identity, boundaries := []\<rparr>)"
    if "computePlaneCoefficients (cloud input) seg = AssertFailed"
    using that by (simp add: calculateBoundaryData_def Let_def)
  show ?thesis
    unfolding Let_def pre_def [symmetric]
    using i1 i2 i3 badf all kind early thrown asserted by (simp only: i2) blast
qed

text \<open>A triangle followed by a face of four indices: the call stops at face 1.\<close>

theorem non_triangular_face_witness:
  "[0, 2, 1, 0] \<in> set (polygons flat_with_quad) \<and> length [0, 2, 1, 0 :: 32 word] \<noteq> 3 \<and>
   computePlaneCoefficients (cloud flat_with_quad) flat_fit = Returned (Inr flat_plane) \<and>
   calculateBoundaryData one_triangle_lib flat_fit flat_with_quad used_importer =
     (Returned (Inl (NonTriangularFace 1 4)), used_importer\<lparr>plane_frame := flat_frame, boundaries := []\<rparr>)"
proof -
  have bad: "\<exists>f\<in>set (polygons flat_with_quad). length f \<noteq> 3"
    by (simp add: flat_with_quad_def)
  have 1: "computePlaneCoefficients (cloud flat_with_quad) flat_fit = Returned (Inr flat_plane)"
    by (simp add: flat_with_quad_def flat_fit_ok)
  have 2: "computeLocalPlaneFrame flat_plane (compute3DCentroid (cloud flat_with_quad))
      (used_importer\<lparr>plane_frame := Identity, boundaries := []\<rparr>)
      = Returned (used_importer\<lparr>plane_frame := flat_frame, boundaries := []\<rparr>)"
    by (simp add: flat_with_quad_def flat_frame_ok)
  have 3: "polygons flat_with_quad ! 1 = [0, 2, 1, 0]" by (simp add: flat_with_quad_def)
  show ?thesis
    using non_triangular_face_aborts [OF bad, of one_triangle_lib flat_fit used_importer] 1 2
    by (simp add: Let_def quad_face_index 3) (simp add: flat_with_quad_def)
qed

text \<open>
  A face of four indices on a cloud whose fit has two inliers of three returns false for
  InsufficientFit; the same face on a cloud without points throws.
\<close>

theorem non_triangular_face_counterexample:
  "[0, 2, 1, 0] \<in> set (polygons flat_with_quad) \<and>
   length [0, 2, 1, 0 :: 32 word] = 4 \<and>
   calculateBoundaryData one_triangle_lib two_inliers flat_with_quad new_importer =
     (Returned (Inl InsufficientFit), new_importer) \<and>
   [0, 2, 1, 0] \<in> set (polygons quad_no_points) \<and>
   calculateBoundaryData one_triangle_lib flat_fit quad_no_points new_importer =
     (Threw, new_importer)"
proof -
  have a: "calculateBoundaryData one_triangle_lib two_inliers flat_with_quad new_importer =
     (Returned (Inl InsufficientFit), new_importer)"
    by (simp add: calculateBoundaryData_def computePlaneCoefficients_def flat_with_quad_def
        flat_cloud_def two_inliers_def new_importer_def)
  have b: "calculateBoundaryData one_triangle_lib flat_fit quad_no_points new_importer =
     (Threw, new_importer)"
    by (simp add: calculateBoundaryData_def computePlaneCoefficients_def quad_no_points_def
        new_importer_def)
  show ?thesis using a b by (simp add: flat_with_quad_def quad_no_points_def)
qed

text \<open>
  C7. Claimed: after a successful call the translation of the plane frame is the
  orthogonal projection of the cloud's centroid onto the fitted plane, and the third
  column is the plane's unit normal.

  When the fitted normal points away from the seed, the source negates the normal (line
  185) and copies the offset as it is (line 196): the plane it hands on is the mirror
  image of the fitted plane through the world origin. For three points in the plane
  \<open>z = 4\<close>, with the fit \<open>(0, 0, -1, 4)\<close> and seed normal \<open>(0, 0, 1)\<close>, the estimator returns
  \<open>(0, 0, 1, 4)\<close>, the plane \<open>z = -4\<close>; the call returns true, and the translation is
  \<open>(2, 0, -4)\<close>, at distance 8 from the fitted plane, on which the centroid \<open>(2, 0, 4)\<close>
  lies.
\<close>

theorem flipped_fit_frame_off_fitted_plane:
  "signedDistance down_plane (xyz (tiny_cloud ! 0)) = 0 \<and>
   signedDistance down_plane (xyz (tiny_cloud ! 1)) = 0 \<and>
   signedDistance down_plane (xyz (tiny_cloud ! 2)) = 0 \<and>
   coefficients down_fit = [0, 0, - 1, 4] \<and>
   compute3DCentroid tiny_cloud = (2, 0, 4) \<and>
   projection down_plane (compute3DCentroid tiny_cloud) = (2, 0, 4) \<and>
   computePlaneCoefficients tiny_cloud down_fit =
     Returned (Inr \<lparr>normal = (0, 0, 1), offset = 4\<rparr>) \<and>
   fst (calculateBoundaryData one_triangle_lib down_fit tiny_triangle new_importer) =
     Returned (Inr ()) \<and>
   translation (plane_frame
     (snd (calculateBoundaryData one_triangle_lib down_fit tiny_triangle new_importer))) =
     (2, 0, - 4) \<and>
   signedDistance down_plane (2, 0, - 4) = 8"
  using down_fit_flipped centroid_tiny tiny_run tiny_points
  by (simp add: down_plane_def signedDistance_def projection_def down_fit_def
      mirrored_plane_def mirrored_frame_def)

text \<open>
  C8. For a list of triangular faces the face loop succeeds, and its index map is a
  bijection between the indices the faces mention and the vertex handles \<open>0, ..., n - 1\<close>:
  the handle of an index is the number of distinct indices before its first occurrence
  (so a vertex is created exactly there), both directions of the map agree, and every
  face is registered with the handles of its three indices.
\<close>

theorem mesh_index_map_bijection:
  assumes tri: "\<forall>f\<in>set faces. length f = 3"
  shows "\<exists>mesh m. polygons_loop 0 faces empty_Mesh [] = Returned (Inr (mesh, m)) \<and>
           distinct (map fst m) \<and> distinct (map snd m) \<and>
           fst ` set m = set (concat faces) \<and>
           snd ` set m = {0..<sizeVertices mesh} \<and>
           bij_betw (\<lambda>k. the (left_at m k)) (set (concat faces)) {0..<sizeVertices mesh} \<and>
           (\<forall>k v. right_at m v = Some k \<longleftrightarrow> left_at m k = Some v) \<and>
           (\<forall>k\<in>set (concat faces).
              left_at m k = Some (card (set (takeWhile (\<lambda>x. x \<noteq> k) (concat faces))))) \<and>
           addedFaces mesh =
             map (\<lambda>f. (the (left_at m (f ! 0)), the (left_at m (f ! 1)), the (left_at m (f ! 2))))
               faces"
proof -
  let ?ks = "first_seen [] (concat faces)"
  let ?m = "idx_map ?ks"
  let ?mesh = "empty_Mesh\<lparr>sizeVertices := length ?ks,
      addedFaces := addedFaces empty_Mesh @
        map (\<lambda>f. (pos ?ks (f ! 0), pos ?ks (f ! 1), pos ?ks (f ! 2))) faces\<rparr>"
  have run: "polygons_loop 0 faces empty_Mesh [] = Returned (Inr (?mesh, ?m))"
    using polygons_loop_idx_map [OF tri, of empty_Mesh "[]" 0]
    by (simp add: empty_Mesh_def)
  have d: "distinct ?ks" by (rule first_seen_distinct) simp
  have s: "set ?ks = set (concat faces)" by (simp add: first_seen_set)
  have d1: "distinct (map fst ?m)" using d by simp
  have d2: "distinct (map snd ?m)" by simp
  have f: "fst ` set ?m = set (concat faces)"
    using fst_idx_map [of ?ks] s by (metis set_map)
  have sn: "snd ` set ?m = {0..<sizeVertices ?mesh}"
  proof -
    have "snd ` set ?m = set [0..<length ?ks]"
      using snd_idx_map [of ?ks] by (metis set_map)
    then show ?thesis by simp
  qed
  have la: "left_at ?m k = Some (pos ?ks k)" if "k \<in> set (concat faces)" for k
    using that s by (simp add: left_at_idx_map)
  have inj: "inj_on (\<lambda>k. the (left_at ?m k)) (set (concat faces))"
  proof (rule inj_onI)
    fix k k' assume k: "k \<in> set (concat faces)" and k': "k' \<in> set (concat faces)"
      and eq: "the (left_at ?m k) = the (left_at ?m k')"
    have "pos ?ks k = pos ?ks k'" using eq la [OF k] la [OF k'] by simp
    then have "?ks ! pos ?ks k = ?ks ! pos ?ks k'" by simp
    then show "k = k'" using k k' s by (simp add: nth_pos)
  qed
  have sub: "(\<lambda>k. the (left_at ?m k)) ` set (concat faces) \<subseteq> {0..<length ?ks}"
  proof
    fix v assume "v \<in> (\<lambda>k. the (left_at ?m k)) ` set (concat faces)"
    then obtain k where k: "k \<in> set (concat faces)" and v: "v = the (left_at ?m k)" by blast
    have "v = pos ?ks k" using v la [OF k] by simp
    then show "v \<in> {0..<length ?ks}" using pos_less [of k ?ks] k s by simp
  qed
  have "card ((\<lambda>k. the (left_at ?m k)) ` set (concat faces)) = card (set (concat faces))"
    using inj by (rule card_image)
  also have "\<dots> = length ?ks" using d s by (metis distinct_card)
  finally have c: "card ((\<lambda>k. the (left_at ?m k)) ` set (concat faces))
      = card {0..<length ?ks}" by simp
  have img: "(\<lambda>k. the (left_at ?m k)) ` set (concat faces) = {0..<length ?ks}"
    using sub c by (intro card_subset_eq) simp_all
  have bij: "bij_betw (\<lambda>k. the (left_at ?m k)) (set (concat faces)) {0..<sizeVertices ?mesh}"
    unfolding bij_betw_def using inj img by simp
  have rl: "\<forall>k v. right_at ?m v = Some k \<longleftrightarrow> left_at ?m k = Some v"
    using right_at_left_at [OF d1 d2] by blast
  have first: "\<forall>k\<in>set (concat faces).
      left_at ?m k = Some (card (set (takeWhile (\<lambda>x. x \<noteq> k) (concat faces))))"
  proof
    fix k assume k: "k \<in> set (concat faces)"
    have "k \<in> set ?ks" using k s by simp
    then have "pos ?ks k = card (set (takeWhile (\<lambda>x. x \<noteq> k) (concat faces)))"
      using pos_first_seen_card [of "[]" k "concat faces"] by simp
    then show "left_at ?m k = Some (card (set (takeWhile (\<lambda>x. x \<noteq> k) (concat faces))))"
      using la [OF k] by simp
  qed
  have faces_eq: "addedFaces ?mesh =
      map (\<lambda>f. (the (left_at ?m (f ! 0)), the (left_at ?m (f ! 1)), the (left_at ?m (f ! 2))))
        faces"
  proof -
    have "(pos ?ks (f ! 0), pos ?ks (f ! 1), pos ?ks (f ! 2)) =
        (the (left_at ?m (f ! 0)), the (left_at ?m (f ! 1)), the (left_at ?m (f ! 2)))"
      if f: "f \<in> set faces" for f
    proof -
      have "length f = 3" using tri f by blast
      then have "f ! 0 \<in> set f" "f ! 1 \<in> set f" "f ! 2 \<in> set f" by simp_all
      then have "f ! 0 \<in> set (concat faces)" "f ! 1 \<in> set (concat faces)"
        "f ! 2 \<in> set (concat faces)" using f by auto
      then show ?thesis by (simp add: la)
    qed
    then show ?thesis by (simp add: empty_Mesh_def)
  qed
  show ?thesis
    using run d1 d2 f sn bij rl first faces_eq by blast
qed

text \<open>Two triangles sharing the indices 7 and 9: four vertices, and 9 keeps the handle 2.\<close>

theorem mesh_index_map_witness:
  "length [5, 7, 9 :: 32 word] = 3 \<and> length [9, 7, 11 :: 32 word] = 3 \<and>
   polygons_loop 0 two_triangles empty_Mesh [] =
     Returned (Inr (\<lparr>sizeVertices = 4, addedFaces = [(0, 1, 2), (2, 1, 3)]\<rparr>,
                    [(5, 0), (7, 1), (9, 2), (11, 3)])) \<and>
   left_at [(5, 0), (7, 1), (9, 2), (11, 3)] 9 = Some 2 \<and>
   card (set (takeWhile (\<lambda>x. x \<noteq> 9) (concat two_triangles))) = 2"
proof -
  have tri: "\<forall>f\<in>set two_triangles. length f = 3" by (simp add: two_triangles_def)
  have ev: "polygons_loop 0 two_triangles empty_Mesh [] =
     Returned (Inr (\<lparr>sizeVertices = 4, addedFaces = [(0, 1, 2), (2, 1, 3)]\<rparr>,
                    [(5, 0), (7, 1), (9, 2), (11, 3)]))"
    by (simp add: two_triangles_def empty_Mesh_def left_count_def left_at_def addVertex_def
        bimap_insert_def addFace_def)
  have c: "card (set (takeWhile (\<lambda>x. x \<noteq> 9) (concat two_triangles))) = 2"
    by (simp add: two_triangles_def)
  show ?thesis
    using mesh_index_map_bijection [OF tri] ev c
    by (simp add: left_at_def)
qed

text \<open>
  C9. After a successful call, every point of every boundary, taken back through the
  plane frame with local Z set to 0, lies within 0.001 of the projection onto the plane
  of the cloud point it came from. The boundaries correspond one to one, in order, to the
  extractor's loops and their half edges.
\<close>

theorem round_trip_within_epsilon:
  assumes run: "calculateBoundaryData lib seg input this0 = (Returned (Inr ()), this')"
  shows "\<exists>hplane mesh m.
     computePlaneCoefficients (cloud input) seg = Returned (Inr hplane) \<and>
     polygons_loop 0 (polygons input) empty_Mesh [] = Returned (Inr (mesh, m)) \<and>
     list_all2
       (list_all2
          (\<lambda>edge (x, y). \<exists>idx.
              right_at m (getOriginatingVertexIndex lib mesh edge) = Some idx \<and>
              unat idx < length (cloud input) \<and>
              vnorm (vsub (transform (plane_frame this') (x, y, 0))
                          (projection hplane (xyz (cloud input ! unat idx)))) < 0.001))
       (getBoundBoundaryHalfEdges lib mesh) (boundaries this')"
  using run
proof (cases rule: calculateBoundaryData_ReturnedE)
  case (ok hplane this1 mesh m pinv u)
  let ?pt = "plane_pt_of lib mesh m (cloud input) hplane pinv"
  let ?R = "\<lambda>e (x, y). \<exists>z. ?pt e = Some (x, y, z) \<and> \<bar>z\<bar> < 0.001"
  let ?Q = "\<lambda>edge (x, y). \<exists>idx.
              right_at m (getOriginatingVertexIndex lib mesh edge) = Some idx \<and>
              unat idx < length (cloud input) \<and>
              vnorm (vsub (transform (plane_frame this') (x, y, 0))
                          (projection hplane (xyz (cloud input ! unat idx)))) < 0.001"
  from boundary_loop_Returned [OF ok(5)] obtain bs where
    this': "this' = this1\<lparr>boundaries := boundaries this1 @ bs\<rparr>"
    and all: "list_all2 (list_all2 ?R) (getBoundBoundaryHalfEdges lib mesh) bs"
    by blast
  have b1: "boundaries this1 = []"
    using computeLocalPlaneFrame_fields(1) [OF ok(2)] by simp
  have bs: "boundaries this' = bs" by (simp add: this' b1)
  have fr: "plane_frame this' = plane_frame this1" by (simp add: this')
  have unit: "vnorm (col2 (plane_frame this1)) = 1"
    using normalized_unit [OF computeLocalPlaneFrame_fields(4) [OF ok(2)]] .
  have step: "?Q e xy" if "?R e xy" for e xy
  proof -
    obtain x y where xy: "xy = (x, y)" by (cases xy) auto
    from that obtain z where pt: "?pt e = Some (x, y, z)" and z: "\<bar>z\<bar> < 0.001"
      by (auto simp: xy)
    from pt obtain idx where idx: "right_at m (getOriginatingVertexIndex lib mesh e) = Some idx"
      and inr: "unat idx < length (cloud input)"
      and loc: "transform pinv (projection hplane (xyz (cloud input ! unat idx))) = (x, y, z)"
      by (auto simp: plane_pt_of_def Let_def split: option.splits if_splits)
    have "transform (plane_frame this1) (x, y, 0) =
        vsub (projection hplane (xyz (cloud input ! unat idx))) (smult z (col2 (plane_frame this1)))"
      using inverse_affine_drop_z [OF ok(4) loc] .
    then have "vnorm (vsub (transform (plane_frame this1) (x, y, 0))
        (projection hplane (xyz (cloud input ! unat idx)))) = \<bar>z\<bar>"
      by (simp add: vnorm_vsub_smult unit)
    then show ?thesis using idx inr z by (auto simp: xy fr)
  qed
  have "list_all2 (list_all2 ?Q) (getBoundBoundaryHalfEdges lib mesh) bs"
    using all step by (blast intro: list_all2_mono)
  then show ?thesis using ok(1) ok(3) bs by blast
qed simp_all

text \<open>The flat triangle: the local point \<open>(4, 0)\<close> goes back to the cloud point \<open>(6, 0, 0)\<close>.\<close>

theorem round_trip_witness:
  "calculateBoundaryData one_triangle_lib flat_fit flat_triangle new_importer =
     (Returned (Inr ()),
      new_importer\<lparr>plane_frame := flat_frame, boundaries := [[(4, 0), (- 2, - 3), (- 2, 3)]]\<rparr>) \<and>
   getBoundBoundaryHalfEdges one_triangle_lib one_triangle_mesh = [[1, 5, 3]] \<and>
   right_at one_triangle_map (getOriginatingVertexIndex one_triangle_lib one_triangle_mesh 1) = Some 1 \<and>
   projection flat_plane (xyz (flat_cloud ! 1)) = (6, 0, 0) \<and>
   vnorm (vsub (transform flat_frame (4, 0, 0)) (projection flat_plane (xyz (flat_cloud ! 1)))) < 0.001"
proof -
  have 1: "computePlaneCoefficients (cloud flat_triangle) flat_fit = Returned (Inr flat_plane)"
    by (simp add: flat_triangle_def flat_fit_ok)
  have 3: "polygons_loop 0 (polygons flat_triangle) empty_Mesh [] =
     Returned (Inr (one_triangle_mesh, one_triangle_map))"
    by (simp del: polygons_loop.simps add: flat_triangle_def one_triangle_built)
  have r: "right_at one_triangle_map (getOriginatingVertexIndex one_triangle_lib one_triangle_mesh 1) = Some 1"
    by (simp add: one_triangle_map_def one_triangle_lib_def right_at_def)
  have p: "projection flat_plane (xyz (flat_cloud ! 1)) = (6, 0, 0)"
    by (simp add: flat_plane_def flat_points projection_def signedDistance_def)
  have v: "vnorm (vsub (transform flat_frame (4, 0, 0))
      (projection flat_plane (xyz (flat_cloud ! 1)))) < 0.001"
    using p by (simp add: flat_frame_def vnorm_def squaredNorm_def)
  show ?thesis
    using round_trip_within_epsilon [OF flat_run] flat_run one_triangle_loops r p v
    by simp
qed

text \<open>
  C10. Claimed: after any failing call the boundary list is empty, and after a failure
  that follows plane estimation the frame is the new one.

  That is so for a call that returns false. A call can also end by the exception of
  \<^verbatim>\<open>right.at\<close> or \<^verbatim>\<open>points.at\<close> in the projection loop (line 115), after line 122 has
  stored earlier boundaries. What holds: after a call that returns false the boundary
  list is empty; the frame is the identity if plane estimation failed, and otherwise the
  failure is a non-triangular face and the frame is the one computed in this call,
  whatever the object held before. After a call that throws, either the cloud is empty
  and the object is reset, or the throw came from the projection loop: the frame is the
  new one and the boundary list holds the boundaries before the one that threw.
\<close>

theorem failure_state:
  "(\<forall>e this'. calculateBoundaryData lib seg input this0 = (Returned (Inl e), this') \<longrightarrow>
      boundaries this' = [] \<and> verbose this' = verbose this0 \<and>
      ((\<exists>e'. computePlaneCoefficients (cloud input) seg = Returned (Inl e')) \<longrightarrow>
         computePlaneCoefficients (cloud input) seg = Returned (Inl e) \<and>
         (e = InsufficientFit \<or> e = NormalMismatch) \<and> plane_frame this' = Identity) \<and>
      (\<forall>hplane. computePlaneCoefficients (cloud input) seg = Returned (Inr hplane) \<longrightarrow>
         (\<exists>i n. e = NonTriangularFace i n \<and> n \<noteq> 3) \<and>
         (\<forall>other. computeLocalPlaneFrame hplane (compute3DCentroid (cloud input)) other =
            Returned (other\<lparr>plane_frame := plane_frame this'\<rparr>)))) \<and>
   (\<forall>this'. calculateBoundaryData lib seg input this0 = (Threw, this') \<longrightarrow>
      (cloud input = [] \<and> this' = this0\<lparr>plane_frame := Identity, boundaries := []\<rparr>) \<or>
      (\<exists>hplane this1 mesh m pinv.
         computePlaneCoefficients (cloud input) seg = Returned (Inr hplane) \<and>
         computeLocalPlaneFrame hplane (compute3DCentroid (cloud input))
           (this0\<lparr>plane_frame := Identity, boundaries := []\<rparr>) = Returned this1 \<and>
         polygons_loop 0 (polygons input) empty_Mesh [] = Returned (Inr (mesh, m)) \<and>
         inverse_affine (plane_frame this1) = Some pinv \<and>
         plane_frame this' = plane_frame this1 \<and>
         length (boundaries this') < length (getBoundBoundaryHalfEdges lib mesh) \<and>
         list_all2
           (list_all2 (\<lambda>e (x, y). \<exists>z.
              plane_pt_of lib mesh m (cloud input) hplane pinv e = Some (x, y, z) \<and>
              \<bar>z\<bar> < 0.001))
           (take (length (boundaries this')) (getBoundBoundaryHalfEdges lib mesh))
           (boundaries this') \<and>
         (\<exists>e\<in>set (getBoundBoundaryHalfEdges lib mesh ! length (boundaries this')).
            plane_pt_of lib mesh m (cloud input) hplane pinv e = None)))"
proof -
  have returned: "boundaries this' = [] \<and> verbose this' = verbose this0 \<and>
      ((\<exists>e'. computePlaneCoefficients (cloud input) seg = Returned (Inl e')) \<longrightarrow>
         computePlaneCoefficients (cloud input) seg = Returned (Inl e) \<and>
         (e = InsufficientFit \<or> e = NormalMismatch) \<and> plane_frame this' = Identity) \<and>
      (\<forall>hplane. computePlaneCoefficients (cloud input) seg = Returned (Inr hplane) \<longrightarrow>
         (\<exists>i n. e = NonTriangularFace i n \<and> n \<noteq> 3) \<and>
         (\<forall>other. computeLocalPlaneFrame hplane (compute3DCentroid (cloud input)) other =
            Returned (other\<lparr>plane_frame := plane_frame this'\<rparr>)))"
    if run: "calculateBoundaryData lib seg input this0 = (Returned (Inl e), this')" for e this'
    using run
  proof (cases rule: calculateBoundaryData_ReturnedE)
    case (fit e')
    then show ?thesis using computePlaneCoefficients_Inl [OF fit(1)] by auto
  next
    case (face hplane e')
    have "boundaries this' = []" "verbose this' = verbose this0"
      using computeLocalPlaneFrame_fields(1,2) [OF face(2)] by simp_all
    moreover have "\<exists>i n. e = NonTriangularFace i n \<and> n \<noteq> 3"
      using polygons_loop_Inl [OF face(3)] face(4) by simp
    moreover have "computeLocalPlaneFrame hplane (compute3DCentroid (cloud input)) other =
             Returned (other\<lparr>plane_frame := plane_frame this'\<rparr>)" for other
      using computeLocalPlaneFrame_any_state [OF face(2)] .
    ultimately show ?thesis using face(1) by simp
  next
    case (ok hplane this1 mesh m pinv u)
    then show ?thesis by simp
  qed
  have threw: "(cloud input = [] \<and> this' = this0\<lparr>plane_frame := Identity, boundaries := []\<rparr>) \<or>
      (\<exists>hplane this1 mesh m pinv.
         computePlaneCoefficients (cloud input) seg = Returned (Inr hplane) \<and>
         computeLocalPlaneFrame hplane (compute3DCentroid (cloud input))
           (this0\<lparr>plane_frame := Identity, boundaries := []\<rparr>) = Returned this1 \<and>
         polygons_loop 0 (polygons input) empty_Mesh [] = Returned (Inr (mesh, m)) \<and>
         inverse_affine (plane_frame this1) = Some pinv \<and>
         plane_frame this' = plane_frame this1 \<and>
         length (boundaries this') < length (getBoundBoundaryHalfEdges lib mesh) \<and>
         list_all2
           (list_all2 (\<lambda>e (x, y). \<exists>z.
              plane_pt_of lib mesh m (cloud input) hplane pinv e = Some (x, y, z) \<and>
              \<bar>z\<bar> < 0.001))
           (take (length (boundaries this')) (getBoundBoundaryHalfEdges lib mesh))
           (boundaries this') \<and>
         (\<exists>e\<in>set (getBoundBoundaryHalfEdges lib mesh ! length (boundaries this')).
            plane_pt_of lib mesh m (cloud input) hplane pinv e = None))"
    if run: "calculateBoundaryData lib seg input this0 = (Threw, this')" for this'
    using run
  proof (cases rule: calculateBoundaryData_ThrewE)
    case empty
    then show ?thesis by simp
  next
    case (lookup hplane this1 mesh m pinv)
    let ?pt = "plane_pt_of lib mesh m (cloud input) hplane pinv"
    let ?loops = "getBoundBoundaryHalfEdges lib mesh"
    from boundary_loop_Threw [OF lookup(5)] obtain bs where
      t: "this' = this1\<lparr>boundaries := boundaries this1 @ bs\<rparr>"
      and len: "length bs < length ?loops"
      and all: "list_all2 (list_all2 (\<lambda>e (x, y). \<exists>z. ?pt e = Some (x, y, z) \<and> \<bar>z\<bar> < 0.001))
          (take (length bs) ?loops) bs"
      and thrower: "\<exists>e\<in>set (?loops ! length bs). ?pt e = None"
      by blast
    have b1: "boundaries this1 = []"
      using computeLocalPlaneFrame_fields(1) [OF lookup(2)] by simp
    have bs: "boundaries this' = bs" by (simp add: t b1)
    have fr: "plane_frame this' = plane_frame this1" by (simp add: t)
    show ?thesis
      using lookup(1-4) fr len all thrower unfolding bs [symmetric] by blast
  qed
  show ?thesis
    apply (rule conjI)
     apply (intro allI impI)
     apply (erule returned)
    apply (intro allI impI)
    apply (erule threw)
    done
qed

text \<open>
  An importer that held boundaries and the identity frame, called on a mesh with a face of
  four indices: the boundaries are gone and the frame is the new one. A mesh whose second
  face names missing points: the call throws with the first boundary stored.
\<close>

theorem failure_state_witness:
  "calculateBoundaryData one_triangle_lib flat_fit flat_with_quad used_importer =
     (Returned (Inl (NonTriangularFace 1 4)), used_importer\<lparr>plane_frame := flat_frame, boundaries := []\<rparr>) \<and>
   computePlaneCoefficients (cloud flat_with_quad) flat_fit = Returned (Inr flat_plane) \<and>
   boundaries (used_importer\<lparr>plane_frame := flat_frame, boundaries := []\<rparr>) = [] \<and>
   plane_frame (used_importer\<lparr>plane_frame := flat_frame, boundaries := []\<rparr>) = flat_frame \<and>
   flat_frame \<noteq> plane_frame used_importer \<and>
   calculateBoundaryData two_triangle_lib flat_fit dangling_faces new_importer =
     (Threw, new_importer\<lparr>plane_frame := flat_frame,
               boundaries := [[(4, 0), (- 2, - 3), (- 2, 3)]]\<rparr>) \<and>
   cloud dangling_faces \<noteq> [] \<and>
   (\<exists>hplane. computePlaneCoefficients (cloud dangling_faces) flat_fit = Returned (Inr hplane))"
proof -
  have 1: "computePlaneCoefficients (cloud flat_with_quad) flat_fit = Returned (Inr flat_plane)"
    by (simp add: flat_with_quad_def flat_fit_ok)
  have 2: "computeLocalPlaneFrame flat_plane (compute3DCentroid (cloud flat_with_quad))
      (used_importer\<lparr>plane_frame := Identity, boundaries := []\<rparr>)
      = Returned (used_importer\<lparr>plane_frame := flat_frame, boundaries := []\<rparr>)"
    by (simp add: flat_with_quad_def flat_frame_ok)
  have 3: "polygons_loop 0 (polygons flat_with_quad) empty_Mesh [] = Returned (Inl (NonTriangularFace 1 4))"
    using polygons_loop_bad_face [of "[[0, 1, 2]]" "[0, 2, 1, 0]" empty_Mesh "[]" 0 "[]"]
    by (simp add: flat_with_quad_def empty_Mesh_def)
  have run: "calculateBoundaryData one_triangle_lib flat_fit flat_with_quad used_importer =
     (Returned (Inl (NonTriangularFace 1 4)), used_importer\<lparr>plane_frame := flat_frame, boundaries := []\<rparr>)"
    using calculateBoundaryData_bad_face [OF 1 2 3] .
  have d: "flat_frame \<noteq> plane_frame used_importer"
    by (simp add: flat_frame_def used_importer_def Identity_def)
  have c: "cloud dangling_faces \<noteq> []" by (simp add: dangling_faces_def flat_cloud_def)
  have w1: "boundaries (used_importer\<lparr>plane_frame := flat_frame, boundaries := []\<rparr>) = []"
    using conjunct1 [OF failure_state [of one_triangle_lib flat_fit flat_with_quad used_importer],
        rule_format, OF run]
    by (rule conjunct1)
  note w2 = conjunct2 [OF failure_state [of two_triangle_lib flat_fit dangling_faces new_importer],
        rule_format, OF dangling_run]
  have w3: "\<exists>hplane. computePlaneCoefficients (cloud dangling_faces) flat_fit = Returned (Inr hplane)"
    using w2 c by blast
  show ?thesis
    using w1 w3 run 1 d dangling_run c by simp
qed

text \<open>
  Three points and the faces \<open>(0, 1, 2)\<close>, \<open>(3, 4, 5)\<close>: the first boundary is stored, then
  the lookup of point 4 throws, and the boundary list is not empty.
\<close>

theorem failure_state_counterexample:
  "length flat_cloud = 3 \<and>
   polygons dangling_faces = [[0, 1, 2], [3, 4, 5]] \<and>
   calculateBoundaryData two_triangle_lib flat_fit dangling_faces new_importer =
     (Threw, new_importer\<lparr>plane_frame := flat_frame,
               boundaries := [[(4, 0), (- 2, - 3), (- 2, 3)]]\<rparr>) \<and>
   boundaries (snd (calculateBoundaryData two_triangle_lib flat_fit dangling_faces new_importer))
     \<noteq> []"
  using dangling_run flat_points(1) by (simp add: dangling_faces_def)

end
